theory Spec2Isabelle
  imports Complex_Main "HOL-Library.Sublist"
begin

section \<open>Data model\<close>

text \<open>The enumerations of \<^verbatim>\<open>utils/enums\<close>.\<close>

datatype MembershipType =
  leader | deputy_leader | cashier | board_member | deputy_board_member | volunteer | member

datatype StatusTypes =
  PENDING | INVITED_TO_INTERVIEW | INTERVIEW_DECLINED | INTERVIEW_COMPLETED
  | OFFER_GIVEN | OFFER_DECLINED | ACCEPTED | REJECTED

fun statusTypeValue :: "StatusTypes \<Rightarrow> string" where
  "statusTypeValue PENDING = ''Pending''"
| "statusTypeValue INVITED_TO_INTERVIEW = ''Invited to interview''"
| "statusTypeValue INTERVIEW_DECLINED = ''Interview declined''"
| "statusTypeValue INTERVIEW_COMPLETED = ''Interview completed''"
| "statusTypeValue OFFER_GIVEN = ''Offer given''"
| "statusTypeValue OFFER_DECLINED = ''Offer declined''"
| "statusTypeValue ACCEPTED = ''Accepted''"
| "statusTypeValue REJECTED = ''Rejected''"

datatype SortTypes = NAME_ASC | NAME_DESC | DATE_ASC | DATE_DESC

text \<open>
  The documents of the five collections. Committee and user identifiers are numbers;
  the identifiers of applications and statuses are object ids, taken as naturals.
  An application is generic in what its \<open>committees\<close> and \<open>statuses\<close> arrays hold:
  references when stored, documents once populated or joined.
\<close>

record committee =
  c_id :: int
  c_name :: string
  c_slug :: string
  accepts_admissions :: bool

record status =
  s_id :: nat
  s_committee :: int
  s_value :: string

record membership =
  m_committee :: int
  m_role :: MembershipType

record user =
  u_id :: int
  u_committees :: "membership list"

record ('c, 's) application =
  a_id :: nat
  a_name :: string
  submitted_date :: int
  committees :: "'c list"
  statuses :: "'s list"

record admission_period =
  start_date :: int
  end_date :: int

record store =
  Applications :: "(int, nat) application list"
  Statuses :: "status list"
  Users :: "user list"
  AdmissionPeriods :: "admission_period list"
  Committees :: "committee list"

text \<open>A committee as a response shows it (\<open>_id\<close>, \<open>name\<close>, \<open>slug\<close>), a status as the
  get-by-id endpoint populates it (its committee replaced by \<open>_id\<close> and \<open>name\<close>, or null when
  no such committee exists), and a status as the list endpoint projects it.\<close>

record committee_view =
  cv_id :: int
  cv_name :: string
  cv_slug :: string

record status_view =
  sv_id :: nat
  sv_committee :: "(int \<times> string) option"
  sv_value :: string

record status_entry =
  se_committee :: int

section \<open>Requests, responses and the environment\<close>

text \<open>The errors a handler passes on: its own \<open>CustomError(message, status)\<close>, the
  \<open>UnauthorizedUserError\<close> of the tools library, and an error the database driver threw.\<close>

datatype error = CustomError string int | UnauthorizedUserError | DatabaseError

datatype query_committee = One string | Many "string list"

record request =
  ntnuiNo :: "int option"
  application_id :: nat
  validation_errors :: "string list"
  q_page :: "int option"
  q_name :: "string option"
  q_committee :: "query_committee option"
  q_status :: "string option"
  q_sort :: "SortTypes option"
  body_name :: string
  body_committees :: "int list"

record pagination =
  currentPage :: int
  numberOfPages :: int

record application_response =
  r_applications :: "(committee_view, status_entry) application list"
  r_pagination :: "pagination option"

datatype body =
  Message string
  | Messages "string list"
  | ApplicationBody "(committee_view, status_view) application"
  | ListBody application_response
  | CreatedBody "(int, nat) application"

text \<open>A handler either answers with \<open>res.status(code).json(body)\<close> or hands an error to
  \<open>next\<close>.\<close>

datatype outcome = Json int body | Next error

text \<open>Modelled from the spec: the centralized error responder is not part of the sources;
  it maps an error to its HTTP status; a missing caller identity is Unauthorized and an
  unexpected persistence failure is Internal.\<close>

fun httpStatus :: "outcome \<Rightarrow> int" where
  "httpStatus (Json code b) = code"
| "httpStatus (Next (CustomError msg code)) = code"
| "httpStatus (Next UnauthorizedUserError) = 401"
| "httpStatus (Next DatabaseError) = 500"

text \<open>The persistence calls of the controller; each may be rejected by the database.\<close>

datatype db_op =
  UserFindById | ApplicationFindById | ApplicationAggregate | CommitteeFindOne
  | StatusInsertMany | ApplicationDeleteMany | StatusDeleteMany
  | UserDeleteMany | AdmissionPeriodDeleteMany | CommitteeUpdateMany

datatype save_error = ValidationError string | OtherError

text \<open>
  What the controller takes from outside: the two sentinel committee ids of
  \<^verbatim>\<open>utils/constants\<close>, the answer of \<^verbatim>\<open>isAdmissionPeriodActive()\<close>, the persistence calls
  that fail, how many statuses an ordered bulk insert had written when it failed, the
  identifiers the database gives to new documents, the submission date, and the error with
  which saving an application is refused, if it is.
\<close>

record env =
  ELECTION_COMMITTEE_ID :: int
  MAIN_BOARD_ID :: int
  admissionPeriodActive :: bool
  failing :: "db_op list"
  inserted_before_failure :: nat
  fresh_id :: nat
  now :: int
  save_refused :: "save_error option"

definition fails :: "env \<Rightarrow> db_op \<Rightarrow> bool" where
  "fails e op = (op \<in> set (failing e))"

section \<open>Membership resolver\<close>

definition getUserCommitteeIdsByUserId :: "env \<Rightarrow> store \<Rightarrow> int \<Rightarrow> error + int list" where
  "getUserCommitteeIdsByUserId e db userId =
     (if fails e UserFindById
      then Inl (CustomError ''Something went wrong when trying to find user'' 500)
      else case find (\<lambda>u. u_id u = userId) (Users db) of
             Some u \<Rightarrow> Inr (map m_committee (u_committees u))
           | None \<Rightarrow> Inr [])"

text \<open>\<open>!userCommitteeIds\<close> tests the truthiness of an array; in JavaScript every array is
  truthy, the empty one too.\<close>

definition truthy_array :: "'a list \<Rightarrow> bool" where
  "truthy_array xs = True"

text \<open>\<open>!ntnuiNo\<close>: the membership number is missing or zero.\<close>

definition falsy_number :: "int option \<Rightarrow> bool" where
  "falsy_number n = (n = None \<or> n = Some 0)"

section \<open>The get-by-id endpoint\<close>

text \<open>\<open>xs.splice(i, 1)\<close>: removes the element at index \<open>i\<close>, nothing when \<open>i\<close> is past the
  end.\<close>

definition splice1 :: "nat \<Rightarrow> 'a list \<Rightarrow> 'a list" where
  "splice1 i xs = take i xs @ drop (Suc i) xs"

text \<open>Population: a reference to a document that does not exist drops out of a populated
  array, and a single populated path becomes null.\<close>

definition findCommittee :: "store \<Rightarrow> int \<Rightarrow> committee option" where
  "findCommittee db c = find (\<lambda>d. c_id d = c) (Committees db)"

definition populateCommittee :: "store \<Rightarrow> int \<Rightarrow> committee_view option" where
  "populateCommittee db c =
     map_option (\<lambda>d. \<lparr>cv_id = c_id d, cv_name = c_name d, cv_slug = c_slug d\<rparr>) (findCommittee db c)"

definition populateStatus :: "store \<Rightarrow> nat \<Rightarrow> status_view option" where
  "populateStatus db r =
     map_option
       (\<lambda>s. \<lparr>sv_id = s_id s,
             sv_committee = map_option (\<lambda>d. (c_id d, c_name d)) (findCommittee db (s_committee s)),
             sv_value = s_value s\<rparr>)
       (find (\<lambda>s. s_id s = r) (Statuses db))"

definition populate :: "store \<Rightarrow> (int, nat) application \<Rightarrow> (committee_view, status_view) application" where
  "populate db a =
     \<lparr>a_id = a_id a, a_name = a_name a, submitted_date = submitted_date a,
      committees = List.map_filter (populateCommittee db) (committees a),
      statuses = List.map_filter (populateStatus db) (statuses a)\<rparr>"

definition findApplication :: "env \<Rightarrow> store \<Rightarrow> nat \<Rightarrow> error + (committee_view, status_view) application" where
  "findApplication e db i =
     (if fails e ApplicationFindById then Inl (CustomError ''Could not find application'' 404)
      else case find (\<lambda>a. a_id a = i) (Applications db) of
             None \<Rightarrow> Inl (CustomError ''Could not find application'' 404)
           | Some a \<Rightarrow> Inr (populate db a))"

text \<open>The loop of the Main Board branch: the first committee that is the Main Board is
  spliced out of both arrays, at the same index, and the loop breaks.\<close>

function mainBoardLoop ::
  "int \<Rightarrow> nat \<Rightarrow> committee_view list \<Rightarrow> 's list \<Rightarrow> committee_view list \<times> 's list" where
  "mainBoardLoop mb i cs ss =
     (if i < length cs
      then (if cv_id (cs ! i) = mb then (splice1 i cs, splice1 i ss)
            else mainBoardLoop mb (i + 1) cs ss)
      else (cs, ss))"
  by pat_completeness auto
termination
  by (relation "measure (\<lambda>(mb, i, cs, ss). length cs - i)") auto

declare mainBoardLoop.simps [simp del]

text \<open>The loop of an ordinary caller: a committee of the caller authorizes; any other
  committee that is the Main Board is spliced out of both arrays and the index stays.\<close>

function ordinaryLoop ::
  "int \<Rightarrow> int list \<Rightarrow> nat \<Rightarrow> bool \<Rightarrow> committee_view list \<Rightarrow> 's list
     \<Rightarrow> bool \<times> committee_view list \<times> 's list" where
  "ordinaryLoop mb u i authorized cs ss =
     (if i < length cs
      then (if cv_id (cs ! i) \<in> set u then ordinaryLoop mb u (i + 1) True cs ss
            else if cv_id (cs ! i) = mb
              then ordinaryLoop mb u i authorized (splice1 i cs) (splice1 i ss)
            else ordinaryLoop mb u (i + 1) authorized cs ss)
      else (authorized, cs, ss))"
  by pat_completeness auto
termination
  by (relation "measure (\<lambda>(mb, u, i, a, cs, ss). length cs - i)") (auto simp: splice1_def)

declare ordinaryLoop.simps [simp del]

text \<open>The decision of the get-by-id endpoint, once the caller's committees and the
  application are at hand.\<close>

definition authorizeApplication ::
  "env \<Rightarrow> int list \<Rightarrow> (committee_view, status_view) application \<Rightarrow> outcome" where
  "authorizeApplication e userCommitteeIds application =
     (if ELECTION_COMMITTEE_ID e \<in> set userCommitteeIds
      then Json 200 (ApplicationBody application)
      else if MAIN_BOARD_ID e \<in> set userCommitteeIds
      then (let r = mainBoardLoop (MAIN_BOARD_ID e) 0 (committees application) (statuses application)
            in if length (fst r) > 0
               then Json 200 (ApplicationBody (application\<lparr>committees := fst r, statuses := snd r\<rparr>))
               else Json 403 (Message ''You do not have access to this application''))
      else (let r = ordinaryLoop (MAIN_BOARD_ID e) userCommitteeIds 0 False
                      (committees application) (statuses application)
            in if fst r
               then Json 200 (ApplicationBody
                      (application\<lparr>committees := fst (snd r), statuses := snd (snd r)\<rparr>))
               else Next (CustomError ''You do not have access to this application'' 403)))"

definition getApplicationById :: "env \<Rightarrow> request \<Rightarrow> store \<Rightarrow> outcome" where
  "getApplicationById e req db =
     (if falsy_number (ntnuiNo req) then Next UnauthorizedUserError
      else (case getUserCommitteeIdsByUserId e db (the (ntnuiNo req)) of
        Inl err \<Rightarrow> Next err
      | Inr userCommitteeIds \<Rightarrow>
          (if \<not> truthy_array userCommitteeIds
           then Json 403 (Message ''The user is not member of any committee'')
           else (case findApplication e db (application_id req) of
                   Inl err \<Rightarrow> Next err
                 | Inr application \<Rightarrow> authorizeApplication e userCommitteeIds application))))"

section \<open>The list endpoint\<close>

subsection \<open>Query operators\<close>

text \<open>\<open>{field: {$in: vs}}\<close> on an array field: some element of the array is among \<open>vs\<close>.
  \<open>{field: {$ne: v}}\<close> with an array \<open>v\<close> on an array of numbers: the array is not \<open>v\<close>.\<close>

definition array_in :: "'a list \<Rightarrow> 'a list \<Rightarrow> bool" where
  "array_in xs vs = (\<exists>x \<in> set xs. x \<in> set vs)"

definition array_ne :: "'a list \<Rightarrow> 'a list \<Rightarrow> bool" where
  "array_ne xs v = (xs \<noteq> v)"

text \<open>The truthiness of a query parameter that is a string: present and not empty.\<close>

definition truthy_string :: "string option \<Rightarrow> bool" where
  "truthy_string s = (s \<noteq> None \<and> s \<noteq> Some [])"

text \<open>\<open>if (committee)\<close>: a string as above; an array is truthy.\<close>

fun truthy_committee :: "query_committee option \<Rightarrow> bool" where
  "truthy_committee None = False"
| "truthy_committee (Some (One s)) = (s \<noteq> [])"
| "truthy_committee (Some (Many ss)) = True"

text \<open>
  \<open>parseInt(s, 10)\<close> on a string, given by its UTF-8 bytes: the leading white space and line
  terminators of JavaScript are skipped, a sign is read, then the longest run of decimal
  digits; \<open>NaN\<close> (here \<open>None\<close>) when there is no digit. The result is a double: the integer
  read is rounded to 53 significant bits, ties to the even neighbour, and is infinite from
  \<open>2 ^ 1024\<close> on; \<open>None\<close> stands for the infinite result too, which like \<open>NaN\<close> is the id of
  no committee.
\<close>

definition white_spaces :: "string list" where
  "white_spaces =
     [[CHR 0x09], [CHR 0x0A], [CHR 0x0B], [CHR 0x0C], [CHR 0x0D], [CHR 0x20],
      [CHR 0xC2, CHR 0xA0], [CHR 0xE1, CHR 0x9A, CHR 0x80],
      [CHR 0xE2, CHR 0x80, CHR 0x80], [CHR 0xE2, CHR 0x80, CHR 0x81],
      [CHR 0xE2, CHR 0x80, CHR 0x82], [CHR 0xE2, CHR 0x80, CHR 0x83],
      [CHR 0xE2, CHR 0x80, CHR 0x84], [CHR 0xE2, CHR 0x80, CHR 0x85],
      [CHR 0xE2, CHR 0x80, CHR 0x86], [CHR 0xE2, CHR 0x80, CHR 0x87],
      [CHR 0xE2, CHR 0x80, CHR 0x88], [CHR 0xE2, CHR 0x80, CHR 0x89],
      [CHR 0xE2, CHR 0x80, CHR 0x8A], [CHR 0xE2, CHR 0x80, CHR 0xA8],
      [CHR 0xE2, CHR 0x80, CHR 0xA9], [CHR 0xE2, CHR 0x80, CHR 0xAF],
      [CHR 0xE2, CHR 0x81, CHR 0x9F], [CHR 0xE3, CHR 0x80, CHR 0x80],
      [CHR 0xEF, CHR 0xBB, CHR 0xBF]]"

function skipWhiteSpace :: "string \<Rightarrow> string" where
  "skipWhiteSpace s =
     (case find (\<lambda>w. prefix w s) white_spaces of
        None \<Rightarrow> s
      | Some w \<Rightarrow> skipWhiteSpace (drop (length w) s))"
  by pat_completeness auto
termination
proof (relation "measure length")
  show "wf (measure length)" by simp
next
  fix s :: string and w
  assume "find (\<lambda>w. prefix w s) white_spaces = Some w"
  then have "w \<in> set white_spaces" and "prefix w s"
    by (auto simp: find_Some_iff)
  then have "w \<noteq> []" and "length w \<le> length s"
    by (auto simp: white_spaces_def prefix_length_le)
  then show "(drop (length w) s, s) \<in> measure length"
    by (cases w) auto
qed

declare skipWhiteSpace.simps [simp del]

definition digit_of :: "char \<Rightarrow> nat option" where
  "digit_of c =
     (if (of_char (CHR ''0'') :: nat) \<le> of_char c \<and> (of_char c :: nat) \<le> of_char (CHR ''9'')
      then Some (of_char c - of_char (CHR ''0'')) else None)"

definition digits_value :: "string \<Rightarrow> int" where
  "digits_value ds = foldl (\<lambda>a d. 10 * a + int (the (digit_of d))) 0 ds"

text \<open>The number of low bits that a double drops from \<open>n\<close>: the least \<open>k\<close> with
  \<open>n div 2 ^ k < 2 ^ 53\<close>.\<close>

function droppedBits :: "int \<Rightarrow> nat" where
  "droppedBits n = (if n < 2 ^ 53 then 0 else Suc (droppedBits (n div 2)))"
  by pat_completeness auto
termination
proof (relation "measure nat")
  show "wf (measure nat)" by simp
next
  fix n :: int
  assume "\<not> n < 2 ^ 53"
  then have "0 < n" by simp
  then show "(n div 2, n) \<in> measure nat" by simp
qed

declare droppedBits.simps [simp del]

definition toDouble :: "int \<Rightarrow> int option" where
  "toDouble n =
     (let k = droppedBits n;
          q = n div 2 ^ k;
          r = n mod 2 ^ k;
          m = (if 2 ^ k < 2 * r \<or> (2 * r = 2 ^ k \<and> odd q) then q + 1 else q)
      in if m * 2 ^ k < 2 ^ 1024 then Some (m * 2 ^ k) else None)"

definition parseInt :: "string \<Rightarrow> int option" where
  "parseInt s =
     (let t = skipWhiteSpace s;
          neg = (t \<noteq> [] \<and> hd t = CHR ''-'');
          r = (if t \<noteq> [] \<and> (hd t = CHR ''-'' \<or> hd t = CHR ''+'') then tl t else t);
          ds = takeWhile (\<lambda>c. digit_of c \<noteq> None) r
      in if ds = [] then None
         else (case toDouble (digits_value ds) of
                 None \<Rightarrow> None
               | Some d \<Rightarrow> Some (if neg then - d else d)))"

subsection \<open>The regular expression of the name filter\<close>

text \<open>
  \<open>{name: {$regex: p, $options: 'i'}}\<close> searches the name for a match of the pattern \<open>p\<close>,
  ignoring case. The model interprets the patterns built from ordinary ASCII characters
  and the dot (any character but a newline), on ASCII names; it gives \<open>None\<close> for any other
  pattern or name, which it does not interpret. Of the other patterns it knows one kind
  that the database refuses when it reads the pipeline: ordinary characters, dots and
  opening parentheses, at least one, which open a group that is never closed.
\<close>

definition ascii :: "char \<Rightarrow> bool" where
  "ascii c = ((of_char c :: nat) < 128)"

definition lower :: "char \<Rightarrow> char" where
  "lower c =
     (if (of_char (CHR ''A'') :: nat) \<le> of_char c \<and> (of_char c :: nat) \<le> of_char (CHR ''Z'')
      then char_of (of_char c + (32 :: nat)) else c)"

definition metacharacters :: "char list" where
  "metacharacters = [CHR 0x5C, CHR ''^'', CHR ''$'', CHR ''.'', CHR ''|'', CHR ''?'', CHR ''*'',
     CHR ''+'', CHR ''('', CHR '')'', CHR ''['', CHR '']'', CHR ''{'', CHR ''}'']"

definition ordinary :: "char \<Rightarrow> bool" where
  "ordinary c = (ascii c \<and> c \<notin> set metacharacters)"

fun matchHere :: "string \<Rightarrow> string \<Rightarrow> bool" where
  "matchHere [] s = True"
| "matchHere (p # ps) [] = False"
| "matchHere (p # ps) (c # cs) =
     ((if p = CHR ''.'' then c \<noteq> CHR 0x0A else lower p = lower c) \<and> matchHere ps cs)"

fun regexSearch :: "string \<Rightarrow> string \<Rightarrow> bool" where
  "regexSearch p [] = matchHere p []"
| "regexSearch p (c # cs) = (matchHere p (c # cs) \<or> regexSearch p cs)"

definition interpreted :: "string \<Rightarrow> bool" where
  "interpreted p = (\<forall>c \<in> set p. ordinary c \<or> c = CHR ''.'')"

definition unclosedGroup :: "string \<Rightarrow> bool" where
  "unclosedGroup p =
     (CHR ''('' \<in> set p \<and> (\<forall>c \<in> set p. ordinary c \<or> c = CHR ''.'' \<or> c = CHR ''(''))"

definition regexTest :: "string \<Rightarrow> string \<Rightarrow> bool option" where
  "regexTest p s =
     (if interpreted p \<and> (\<forall>c \<in> set s. ascii c) then Some (regexSearch p s) else None)"

fun filter_option :: "('a \<Rightarrow> bool option) \<Rightarrow> 'a list \<Rightarrow> 'a list option" where
  "filter_option P [] = Some []"
| "filter_option P (x # xs) =
     (case P x of
        None \<Rightarrow> None
      | Some b \<Rightarrow> (case filter_option P xs of
                     None \<Rightarrow> None
                   | Some ys \<Rightarrow> Some (if b then x # ys else ys)))"

subsection \<open>The stages of the aggregation pipeline\<close>

definition scopeStage ::
  "env \<Rightarrow> int list \<Rightarrow> (int, 's) application list \<Rightarrow> (int, 's) application list" where
  "scopeStage e userCommitteeIds apps =
     (if ELECTION_COMMITTEE_ID e \<in> set userCommitteeIds then apps
      else if MAIN_BOARD_ID e \<in> set userCommitteeIds
      then filter (\<lambda>a. array_ne (committees a) [MAIN_BOARD_ID e]) apps
      else filter (\<lambda>a. array_in (committees a) userCommitteeIds) apps)"

definition nameStage ::
  "string option \<Rightarrow> ('c, 's) application list \<Rightarrow> ('c, 's) application list option" where
  "nameStage name apps =
     (if truthy_string name
      then (if interpreted (the name)
            then filter_option (\<lambda>a. regexTest (the name) (a_name a)) apps
            else None)
      else Some apps)"

text \<open>\<open>$lookup\<close>: the array of references is replaced by the documents of the other
  collection that it refers to, in the order of that collection.\<close>

definition lookupStatuses :: "store \<Rightarrow> ('c, nat) application \<Rightarrow> ('c, status) application" where
  "lookupStatuses db a =
     \<lparr>a_id = a_id a, a_name = a_name a, submitted_date = submitted_date a,
      committees = committees a,
      statuses = filter (\<lambda>s. s_id s \<in> set (statuses a)) (Statuses db)\<rparr>"

definition lookupCommittees :: "store \<Rightarrow> (int, 's) application \<Rightarrow> (committee, 's) application" where
  "lookupCommittees db a =
     \<lparr>a_id = a_id a, a_name = a_name a, submitted_date = submitted_date a,
      committees = filter (\<lambda>d. c_id d \<in> set (committees a)) (Committees db),
      statuses = statuses a\<rparr>"

text \<open>The array \<open>committeeIds\<close> that the handler builds from the \<open>committee\<close> parameter.\<close>

fun queryCommitteeIds :: "query_committee option \<Rightarrow> int option list" where
  "queryCommitteeIds None = []"
| "queryCommitteeIds (Some (One s)) = (if s = [] then [] else [parseInt s])"
| "queryCommitteeIds (Some (Many ss)) = map parseInt ss"

definition filterStage ::
  "string option \<Rightarrow> query_committee option \<Rightarrow> (int, status) application list
     \<Rightarrow> (int, status) application list" where
  "filterStage status committee apps =
     (if truthy_string status \<and> truthy_committee committee
      then filter (\<lambda>a. \<exists>s \<in> set (statuses a).
                     Some (s_committee s) \<in> set (queryCommitteeIds committee) \<and> s_value s = the status) apps
      else if truthy_string status
      then filter (\<lambda>a. \<exists>s \<in> set (statuses a). s_value s = the status) apps
      else if truthy_committee committee
      then filter (\<lambda>a. array_in (map Some (committees a)) (queryCommitteeIds committee)) apps
      else apps)"

text \<open>Modelled from the spec: \<^verbatim>\<open>getSortTypeValue\<close> of \<^verbatim>\<open>utils/applicationQueryMiddleware\<close> is not
  part of the sources; the four sort keys order by name or by submission date, ascending
  (\<open>1\<close>) or descending (\<open>-1\<close>).\<close>

datatype sort_field = ByName | ByDate

fun getSortTypeValue :: "SortTypes \<Rightarrow> sort_field \<times> int" where
  "getSortTypeValue NAME_ASC = (ByName, 1)"
| "getSortTypeValue NAME_DESC = (ByName, -1)"
| "getSortTypeValue DATE_ASC = (ByDate, 1)"
| "getSortTypeValue DATE_DESC = (ByDate, -1)"

text \<open>Strings compare byte by byte.\<close>

fun string_le :: "string \<Rightarrow> string \<Rightarrow> bool" where
  "string_le [] t = True"
| "string_le (c # cs) [] = False"
| "string_le (c # cs) (d # ds) =
     ((of_char c :: nat) < of_char d \<or> (c = d \<and> string_le cs ds))"

fun sortsBefore :: "sort_field \<times> int \<Rightarrow> ('c, 's) application \<Rightarrow> ('c, 's) application \<Rightarrow> bool" where
  "sortsBefore (ByName, d) a b =
     (if d = 1 then string_le (a_name a) (a_name b) else string_le (a_name b) (a_name a))"
| "sortsBefore (ByDate, d) a b =
     (if d = 1 then submitted_date a \<le> submitted_date b else submitted_date b \<le> submitted_date a)"

fun insertSorted :: "('a \<Rightarrow> 'a \<Rightarrow> bool) \<Rightarrow> 'a \<Rightarrow> 'a list \<Rightarrow> 'a list" where
  "insertSorted le x [] = [x]"
| "insertSorted le x (y # ys) = (if le x y then x # y # ys else y # insertSorted le x ys)"

definition sortStage ::
  "SortTypes option \<Rightarrow> ('c, 's) application list \<Rightarrow> ('c, 's) application list" where
  "sortStage sortparam apps =
     (case sortparam of
        None \<Rightarrow> apps
      | Some k \<Rightarrow> foldr (insertSorted (sortsBefore (getSortTypeValue k))) apps [])"

text \<open>
  The \<open>$facet\<close> stage: the window of the page, and beside it the count of all its input with
  the two derived fields. \<open>$count\<close> emits no document on an empty input, so the
  \<open>pagination\<close> facet is then empty. \<open>$skip\<close> refuses a negative number.
\<close>

definition LIMIT :: nat where
  "LIMIT = 4"

definition startIndex :: "int option \<Rightarrow> int" where
  "startIndex page = (case page of Some p \<Rightarrow> (p - 1) * int LIMIT | None \<Rightarrow> 0)"

record 'a facet =
  f_applications :: "'a list"
  f_pagination :: "(nat \<times> pagination) list"

definition paginationStage :: "int option \<Rightarrow> 'a list \<Rightarrow> 'a facet option" where
  "paginationStage page apps =
     (if startIndex page < 0 then None
      else Some \<lparr>f_applications = take LIMIT (drop (nat (startIndex page)) apps),
                f_pagination =
                  (if apps = [] then []
                   else [(length apps,
                          \<lparr>currentPage = (case page of Some p \<Rightarrow> p | None \<Rightarrow> 0),
                           numberOfPages = \<lceil>real (length apps) / real LIMIT\<rceil>\<rparr>)])\<rparr>)"

definition projectApplication ::
  "(committee, status) application \<Rightarrow> (committee_view, status_entry) application" where
  "projectApplication a =
     \<lparr>a_id = a_id a, a_name = a_name a, submitted_date = submitted_date a,
      committees = map (\<lambda>d. \<lparr>cv_id = c_id d, cv_name = c_name d, cv_slug = c_slug d\<rparr>) (committees a),
      statuses = map (\<lambda>s. \<lparr>se_committee = s_committee s\<rparr>) (statuses a)\<rparr>"

definition projection :: "(committee, status) application facet \<Rightarrow> application_response" where
  "projection f =
     \<lparr>r_applications = map projectApplication (f_applications f),
      r_pagination = (case f_pagination f of [] \<Rightarrow> None | tp # rest \<Rightarrow> Some (snd tp))\<rparr>"

text \<open>The documents that reach the pagination stage: scope, name filter, status join,
  status and committee filter, committee join, sort.\<close>

definition matchedApplications ::
  "env \<Rightarrow> int list \<Rightarrow> request \<Rightarrow> store \<Rightarrow> (committee, status) application list option" where
  "matchedApplications e userCommitteeIds req db =
     map_option
       (\<lambda>named. sortStage (q_sort req)
          (map (lookupCommittees db)
             (filterStage (q_status req) (q_committee req) (map (lookupStatuses db) named))))
       (nameStage (q_name req) (scopeStage e userCommitteeIds (Applications db)))"

text \<open>Running the pipeline: an error of the database is caught and becomes a
  \<open>CustomError\<close>, also when the database refuses the pipeline as it reads it, for a negative
  \<open>$skip\<close> or a regular expression with an unclosed group; an empty page is replaced by the
  fixed answer.\<close>

definition emptyResponse :: application_response where
  "emptyResponse = \<lparr>r_applications = [], r_pagination = Some \<lparr>currentPage = 1, numberOfPages = 0\<rparr>\<rparr>"

definition aggregate ::
  "env \<Rightarrow> int list \<Rightarrow> request \<Rightarrow> store \<Rightarrow> (error + application_response) option" where
  "aggregate e userCommitteeIds req db =
     (if fails e ApplicationAggregate \<or> startIndex (q_page req) < 0
         \<or> (truthy_string (q_name req) \<and> unclosedGroup (the (q_name req)))
      then Some (Inl (CustomError ''Something went wrong retrieving applications'' 500))
      else map_option
             (\<lambda>matched.
                case paginationStage (q_page req) matched of
                  None \<Rightarrow> Inl (CustomError ''Something went wrong retrieving applications'' 500)
                | Some f \<Rightarrow>
                    Inr (if length (r_applications (projection f)) \<noteq> 0 then projection f
                         else emptyResponse))
             (matchedApplications e userCommitteeIds req db))"

text \<open>The redaction of the list: in every application, the committees that are the Main
  Board and the statuses whose committee is the Main Board are filtered out.\<close>

definition redactApplication ::
  "int \<Rightarrow> (committee_view, status_entry) application \<Rightarrow> (committee_view, status_entry) application" where
  "redactApplication mb a =
     a\<lparr>committees := filter (\<lambda>com. cv_id com \<noteq> mb) (committees a),
       statuses := filter (\<lambda>stat. se_committee stat \<noteq> mb) (statuses a)\<rparr>"

definition redactResponse :: "env \<Rightarrow> int list \<Rightarrow> application_response \<Rightarrow> application_response" where
  "redactResponse e userCommitteeIds r =
     (if truthy_array (r_applications r) \<and> ELECTION_COMMITTEE_ID e \<notin> set userCommitteeIds
      then r\<lparr>r_applications := map (redactApplication (MAIN_BOARD_ID e)) (r_applications r)\<rparr>
      else r)"

text \<open>The handler. Its result is \<open>None\<close> only where the name filter is a pattern, or meets
  a name, that the model of the regular expressions does not interpret.\<close>

definition getApplications :: "env \<Rightarrow> request \<Rightarrow> store \<Rightarrow> outcome option" where
  "getApplications e req db =
     (if falsy_number (ntnuiNo req) then Some (Next UnauthorizedUserError)
      else (case getUserCommitteeIdsByUserId e db (the (ntnuiNo req)) of
        Inl err \<Rightarrow> Some (Next err)
      | Inr userCommitteeIds \<Rightarrow>
          (if \<not> truthy_array userCommitteeIds
           then Some (Json 403 (Message ''The user is not member of any committee''))
           else if validation_errors req \<noteq> []
           then Some (Json 400 (Messages (validation_errors req)))
           else map_option
                  (\<lambda>r. case r of
                         Inl err \<Rightarrow> Next err
                       | Inr applicationRes \<Rightarrow>
                           Json 200 (ListBody (redactResponse e userCommitteeIds applicationRes)))
                  (aggregate e userCommitteeIds req db))))"

section \<open>The submit endpoint\<close>

definition newStatuses :: "env \<Rightarrow> int list \<Rightarrow> status list" where
  "newStatuses e cs =
     map (\<lambda>(k, c). \<lparr>s_id = fresh_id e + k, s_committee = c, s_value = statusTypeValue PENDING\<rparr>)
       (enumerate 0 cs)"

definition postApplication :: "env \<Rightarrow> request \<Rightarrow> store \<Rightarrow> outcome \<times> store" where
  "postApplication e req db =
     (if \<not> admissionPeriodActive e
      then (Next (CustomError ''Admission period is not active'' 403), db)
      else if fails e CommitteeFindOne then (Next DatabaseError, db)
      else (case find (\<lambda>d. c_id d \<in> set (body_committees req) \<and> accepts_admissions d = False)
                   (Committees db) of
        Some closedCommittees \<Rightarrow>
          (Json 400 (Message ''A committee the application was sent to is closed''), db)
      | None \<Rightarrow>
          (let statuses = newStatuses e (body_committees req)
           in if fails e StatusInsertMany
              then (Next (CustomError ''Something went wrong creating statuses'' 500),
                    db\<lparr>Statuses := Statuses db @ take (inserted_before_failure e) statuses\<rparr>)
              else (let db1 = db\<lparr>Statuses := Statuses db @ statuses\<rparr>;
                        application =
                          \<lparr>a_id = fresh_id e + length statuses, a_name = body_name req,
                           submitted_date = now e, committees = body_committees req,
                           statuses = map s_id statuses\<rparr>
                    in (case save_refused e of
                          Some (ValidationError msg) \<Rightarrow> (Json 400 (Message msg), db1)
                        | Some OtherError \<Rightarrow>
                            (Json 500 (Message ''Unable to save application''), db1)
                        | None \<Rightarrow>
                            (Json 200 (CreatedBody application),
                             db1\<lparr>Applications := Applications db1 @ [application]\<rparr>))))))"

section \<open>The wipe endpoint\<close>

text \<open>The five operations run one after the other; one that fails leaves the earlier
  ones done and the later ones undone.\<close>

definition wipeCollections :: "env \<Rightarrow> int \<Rightarrow> store \<Rightarrow> outcome \<times> store" where
  "wipeCollections e caller db =
     (if fails e ApplicationDeleteMany then (Next DatabaseError, db)
      else (let db1 = db\<lparr>Applications := []\<rparr>
      in if fails e StatusDeleteMany then (Next DatabaseError, db1)
      else (let db2 = db1\<lparr>Statuses := []\<rparr>
      in if fails e UserDeleteMany then (Next DatabaseError, db2)
      else (let db3 = db2\<lparr>Users := filter (\<lambda>u. \<not> u_id u \<noteq> caller) (Users db2)\<rparr>
      in if fails e AdmissionPeriodDeleteMany then (Next DatabaseError, db3)
      else (let db4 = db3\<lparr>AdmissionPeriods := []\<rparr>
      in if fails e CommitteeUpdateMany then (Next DatabaseError, db4)
      else (Json 200 (Message ''Admission data successfully wiped''),
            db4\<lparr>Committees := map (\<lambda>c. c\<lparr>accepts_admissions := False\<rparr>) (Committees db4)\<rparr>))))))"

definition wipeAdmissionData :: "env \<Rightarrow> request \<Rightarrow> store \<Rightarrow> outcome \<times> store" where
  "wipeAdmissionData e req db =
     (if falsy_number (ntnuiNo req) then (Next UnauthorizedUserError, db)
      else (case getUserCommitteeIdsByUserId e db (the (ntnuiNo req)) of
        Inl err \<Rightarrow> (Next err, db)
      | Inr committeeIds \<Rightarrow>
          if MAIN_BOARD_ID e \<notin> set committeeIds
          then (Next (CustomError ''You do not have access to this resource'' 403), db)
          else wipeCollections e (the (ntnuiNo req)) db))"

section \<open>A notion for the statements\<close>

text \<open>What a second array keeps when the entries of a first array that fail \<open>P\<close> are removed
  from both arrays at the same positions; entries past the end of the first array stay.\<close>

fun keepBy :: "('a \<Rightarrow> bool) \<Rightarrow> 'a list \<Rightarrow> 'b list \<Rightarrow> 'b list" where
  "keepBy P [] ss = ss"
| "keepBy P (c # cs) [] = []"
| "keepBy P (c # cs) (s # ss) = (if P c then s # keepBy P cs ss else keepBy P cs ss)"

section \<open>Example data\<close>

text \<open>A small store for the concrete checks below. The sentinel ids are examples (the
  general theorems hold for any values): the Election Committee is 1, the Main Board 8.
  User 10 sits on the Main Board, user 11 in committee 7, user 12 in no committee and
  user 13 in the Election Committee. Application 1 is addressed to the Main Board alone,
  application 2 to the Main Board and the committees 7 and 9, in this order.\<close>

definition example_env :: env where
  "example_env =
     \<lparr>ELECTION_COMMITTEE_ID = 1, MAIN_BOARD_ID = 8, admissionPeriodActive = True, failing = [],
      inserted_before_failure = 0, fresh_id = 100, now = 30, save_refused = None\<rparr>"

definition example_app1 :: "(int, nat) application" where
  "example_app1 =
     \<lparr>a_id = 1, a_name = ''Bob'', submitted_date = 10, committees = [8], statuses = [1]\<rparr>"

definition example_app2 :: "(int, nat) application" where
  "example_app2 =
     \<lparr>a_id = 2, a_name = ''Alice'', submitted_date = 20, committees = [8, 7, 9],
      statuses = [2, 3, 4]\<rparr>"

definition example_db :: store where
  "example_db =
     \<lparr>Applications = [example_app1, example_app2],
      Statuses =
        [\<lparr>s_id = 1, s_committee = 8, s_value = ''Pending''\<rparr>,
         \<lparr>s_id = 2, s_committee = 8, s_value = ''Pending''\<rparr>,
         \<lparr>s_id = 3, s_committee = 7, s_value = ''Pending''\<rparr>,
         \<lparr>s_id = 4, s_committee = 9, s_value = ''Accepted''\<rparr>],
      Users =
        [\<lparr>u_id = 10, u_committees = [\<lparr>m_committee = 8, m_role = leader\<rparr>]\<rparr>,
         \<lparr>u_id = 11, u_committees = [\<lparr>m_committee = 7, m_role = member\<rparr>]\<rparr>,
         \<lparr>u_id = 12, u_committees = []\<rparr>,
         \<lparr>u_id = 13, u_committees = [\<lparr>m_committee = 1, m_role = cashier\<rparr>]\<rparr>],
      AdmissionPeriods = [\<lparr>start_date = 0, end_date = 100\<rparr>],
      Committees =
        [\<lparr>c_id = 1, c_name = ''Election Committee'', c_slug = ''election'',
          accepts_admissions = True\<rparr>,
         \<lparr>c_id = 7, c_name = ''Sprint'', c_slug = ''sprint'', accepts_admissions = True\<rparr>,
         \<lparr>c_id = 8, c_name = ''Main Board'', c_slug = ''main-board'', accepts_admissions = True\<rparr>,
         \<lparr>c_id = 9, c_name = ''Dance'', c_slug = ''dance'', accepts_admissions = False\<rparr>]\<rparr>"

text \<open>A request of the given caller for the given application, with no query parameter
  and an empty body.\<close>

definition example_request :: "int option \<Rightarrow> nat \<Rightarrow> request" where
  "example_request caller i =
     \<lparr>ntnuiNo = caller, application_id = i, validation_errors = [], q_page = None,
      q_name = None, q_committee = None, q_status = None, q_sort = None,
      body_name = [], body_committees = []\<rparr>"

text \<open>The committees 7, 8 and 9 as a response shows them, and application 2 as the
  pipeline of the list endpoint returns it: each joined array in the order of its own
  collection.\<close>

definition example_sprint :: committee_view where
  "example_sprint = \<lparr>cv_id = 7, cv_name = ''Sprint'', cv_slug = ''sprint''\<rparr>"

definition example_main_board :: committee_view where
  "example_main_board = \<lparr>cv_id = 8, cv_name = ''Main Board'', cv_slug = ''main-board''\<rparr>"

definition example_dance :: committee_view where
  "example_dance = \<lparr>cv_id = 9, cv_name = ''Dance'', cv_slug = ''dance''\<rparr>"

definition example_listed :: "(committee_view, status_entry) application" where
  "example_listed =
     \<lparr>a_id = 2, a_name = ''Alice'', submitted_date = 20,
      committees = [example_sprint, example_main_board, example_dance],
      statuses = [\<lparr>se_committee = 8\<rparr>, \<lparr>se_committee = 7\<rparr>, \<lparr>se_committee = 9\<rparr>]\<rparr>"

section \<open>The two loops of the get-by-id endpoint\<close>

lemma splice1_nths: "splice1 i xs = nths xs {j. j \<noteq> i}"
proof -
  have "nths xs {j. j \<noteq> i} = nths (take i xs @ drop i xs) {j. j \<noteq> i}" by simp
  also have "\<dots> = nths (take i xs) {j. j \<noteq> i} @ nths (drop i xs) {j. j + length (take i xs) \<in> {j. j \<noteq> i}}"
    by (rule nths_append)
  also have "nths (take i xs) {j. j \<noteq> i} = take i xs"
    by (rule nths_all) auto
  also have "nths (drop i xs) {j. j + length (take i xs) \<in> {j. j \<noteq> i}} = drop (Suc i) xs"
  proof (cases "i < length xs")
    case True
    then have "drop i xs = xs ! i # drop (Suc i) xs" by (simp add: Cons_nth_drop_Suc)
    moreover have "nths (drop (Suc i) xs) {j. Suc j + length (take i xs) \<in> {j. j \<noteq> i}} = drop (Suc i) xs"
      using True by (intro nths_all) (auto simp: min_def)
    ultimately show ?thesis using True by (simp add: nths_Cons min_def)
  next
    case False
    then show ?thesis by simp
  qed
  finally show ?thesis by (simp add: splice1_def)
qed

lemma keepBy_Nil [simp]: "keepBy P cs [] = []"
  by (cases cs) auto

lemma keepBy_nths: "keepBy P cs ss = nths ss {j. j < length cs \<longrightarrow> P (cs ! j)}"
proof (induction P cs ss rule: keepBy.induct)
  case (1 P ss)
  then show ?case by (simp add: nths_all)
next
  case (2 P c cs)
  then show ?case by simp
next
  case (3 P c cs s ss)
  have "{j. Suc j < Suc (length cs) \<longrightarrow> P ((c # cs) ! Suc j)} = {j. j < length cs \<longrightarrow> P (cs ! j)}"
    by auto
  with 3 show ?case by (simp add: nths_Cons)
qed

lemma filter_nths_total: "filter P cs = nths cs {j. j < length cs \<longrightarrow> P (cs ! j)}"
proof -
  have "nths cs {j. j < length cs \<longrightarrow> P (cs ! j)} = nths cs {j. j < length cs \<and> P (cs ! j)}"
    unfolding nths_def by (rule arg_cong[where f="map fst"], rule filter_cong) (auto simp: set_zip)
  then show ?thesis by (simp add: filter_eq_nths)
qed

lemma take_splice1 [simp]: "take i (splice1 i xs) = take i xs"
  by (simp add: splice1_def min_def)

lemma drop_splice1 [simp]: "drop i (splice1 i xs) = drop (Suc i) xs"
  by (simp add: splice1_def min_def) 

lemma keepBy_step:
  assumes "i < length cs"
  shows "take i ss @ keepBy P (drop i cs) (drop i ss) =
         (if P (cs ! i) then take (Suc i) ss else take i ss) @ keepBy P (drop (Suc i) cs) (drop (Suc i) ss)"
proof (cases "i < length ss")
  case True
  then show ?thesis using assms
    by (simp add: Cons_nth_drop_Suc[symmetric] take_Suc_conv_app_nth)
next
  case False
  then show ?thesis by simp
qed

lemma filter_step:
  assumes "i < length cs"
  shows "take i cs @ filter P (drop i cs) =
         (if P (cs ! i) then take (Suc i) cs else take i cs) @ filter P (drop (Suc i) cs)"
  using assms by (simp add: Cons_nth_drop_Suc[symmetric] take_Suc_conv_app_nth)

lemma ordinaryLoop_eq:
  "ordinaryLoop mb u i auth cs ss =
     (auth \<or> (\<exists>c \<in> set (drop i cs). cv_id c \<in> set u),
      take i cs @ filter (\<lambda>c. cv_id c \<in> set u \<or> cv_id c \<noteq> mb) (drop i cs),
      take i ss @ keepBy (\<lambda>c. cv_id c \<in> set u \<or> cv_id c \<noteq> mb) (drop i cs) (drop i ss))"
proof (induction mb u i auth cs ss rule: ordinaryLoop.induct)
  case (1 mb u i authorized cs ss)
  let ?P = "\<lambda>c. cv_id c \<in> set u \<or> cv_id c \<noteq> mb"
  show ?case
  proof (cases "i < length cs")
    case False
    then show ?thesis by (subst ordinaryLoop.simps) simp
  next
    case True
    note fs = filter_step[OF True, of ?P] and ks = keepBy_step[OF True, of ss ?P]
    have d: "drop i cs = cs ! i # drop (Suc i) cs"
      using True by (simp add: Cons_nth_drop_Suc)
    consider (mem) "cv_id (cs ! i) \<in> set u"
      | (mb) "cv_id (cs ! i) \<notin> set u" "cv_id (cs ! i) = mb"
      | (other) "cv_id (cs ! i) \<notin> set u" "cv_id (cs ! i) \<noteq> mb" by blast
    then show ?thesis
    proof cases
      case mem
      then show ?thesis
        using True "1.IH"(1) fs ks d by (subst ordinaryLoop.simps) simp
    next
      case mb
      then show ?thesis
        using True "1.IH"(2) fs ks d by (subst ordinaryLoop.simps) simp
    next
      case other
      then show ?thesis
        using True "1.IH"(3) fs ks d by (subst ordinaryLoop.simps) simp
    qed
  qed
qed

lemma mainBoardLoop_eq:
  "mainBoardLoop mb i cs ss =
     (let k = i + length (takeWhile (\<lambda>c. cv_id c \<noteq> mb) (drop i cs))
      in if k < length cs then (splice1 k cs, splice1 k ss) else (cs, ss))"
proof (induction mb i cs ss rule: mainBoardLoop.induct)
  case (1 mb i cs ss)
  show ?case
  proof (cases "i < length cs")
    case False
    then show ?thesis by (subst mainBoardLoop.simps) simp
  next
    case True
    then have d: "drop i cs = cs ! i # drop (Suc i) cs"
      by (simp add: Cons_nth_drop_Suc)
    show ?thesis
    proof (cases "cv_id (cs ! i) = mb")
      case True
      then show ?thesis using \<open>i < length cs\<close> d by (subst mainBoardLoop.simps) simp
    next
      case False
      then show ?thesis using \<open>i < length cs\<close> d "1.IH"
        by (subst mainBoardLoop.simps) (simp add: Let_def)
    qed
  qed
qed

lemma mainBoardLoop_nonempty:
  assumes "cs \<noteq> []"
  shows "(fst (mainBoardLoop mb 0 cs ss) \<noteq> []) = (map cv_id cs \<noteq> [mb])"
proof (cases cs)
  case Nil
  with assms show ?thesis by simp
next
  case (Cons c cs')
  show ?thesis
  proof (cases "cv_id c = mb")
    case True
    then show ?thesis using Cons by (simp add: mainBoardLoop_eq splice1_def)
  next
    case False
    then show ?thesis using Cons
      by (cases cs') (auto simp: mainBoardLoop_eq splice1_def Let_def)
  qed
qed

lemma ordinaryLoop_authorized:
  "fst (ordinaryLoop mb u 0 False cs ss) = (set u \<inter> cv_id ` set cs \<noteq> {})"
  by (auto simp: ordinaryLoop_eq)

lemma scopeStage_admits:
  "a \<in> set (scopeStage e U apps) \<longleftrightarrow>
     a \<in> set apps \<and>
     (ELECTION_COMMITTEE_ID e \<in> set U
      \<or> (MAIN_BOARD_ID e \<in> set U \<and> committees a \<noteq> [MAIN_BOARD_ID e])
      \<or> (MAIN_BOARD_ID e \<notin> set U \<and> set U \<inter> set (committees a) \<noteq> {}))"
  by (auto simp: scopeStage_def array_ne_def array_in_def)

lemma authorizeApplication_status:
  assumes "committees app \<noteq> []"
  shows "httpStatus (authorizeApplication e U app) =
     (if ELECTION_COMMITTEE_ID e \<in> set U
         \<or> (MAIN_BOARD_ID e \<in> set U \<and> map cv_id (committees app) \<noteq> [MAIN_BOARD_ID e])
         \<or> (MAIN_BOARD_ID e \<notin> set U \<and> set U \<inter> cv_id ` set (committees app) \<noteq> {})
      then 200 else 403)"
  using mainBoardLoop_nonempty[OF assms, of "MAIN_BOARD_ID e" "statuses app"]
    ordinaryLoop_authorized[of "MAIN_BOARD_ID e" U "committees app" "statuses app"]
  by (simp add: authorizeApplication_def Let_def)

lemmas example_defs = example_env_def example_db_def example_app1_def example_app2_def
  example_request_def example_sprint_def example_main_board_def example_dance_def
  example_listed_def

section \<open>Visibility\<close>

text \<open>An application with no committee at all separates the two endpoints for a Main Board
  member: the scope stage of the list admits it, the get-by-id endpoint refuses it. The
  statement on the get-by-id endpoint below is therefore about applications with at least
  one committee.\<close>

lemma no_committee_main_board:
  assumes "ELECTION_COMMITTEE_ID e \<notin> set U" "MAIN_BOARD_ID e \<in> set U"
  shows "authorizeApplication e U (app\<lparr>committees := []\<rparr>) =
           Json 403 (Message ''You do not have access to this application'')"
    and "committees a = [] \<Longrightarrow> a \<in> set (scopeStage e U [a])"
  using assms
  by (simp_all add: authorizeApplication_def scopeStage_def array_ne_def mainBoardLoop.simps)

text \<open>
  Claim C1, as amended. The scope stage of the list endpoint admits an application exactly
  when the caller's committees contain the Election Committee, or contain the Main Board
  and the application is not addressed to exactly the Main Board, or do not contain the Main
  Board and share a committee with the application. For an application addressed to at
  least one committee, the get-by-id endpoint answers 200 under the same condition and 403
  otherwise.
\<close>

theorem visibility_policy:
  "(a \<in> set (scopeStage e U apps) \<longleftrightarrow>
      a \<in> set apps \<and>
      (ELECTION_COMMITTEE_ID e \<in> set U
       \<or> (MAIN_BOARD_ID e \<in> set U \<and> committees a \<noteq> [MAIN_BOARD_ID e])
       \<or> (MAIN_BOARD_ID e \<notin> set U \<and> set U \<inter> set (committees a) \<noteq> {})))
   \<and> (\<not> falsy_number (ntnuiNo req)
        \<and> getUserCommitteeIdsByUserId e db (the (ntnuiNo req)) = Inr U
        \<and> findApplication e db (application_id req) = Inr app
        \<and> committees app \<noteq> []
      \<longrightarrow> httpStatus (getApplicationById e req db) =
            (if ELECTION_COMMITTEE_ID e \<in> set U
                \<or> (MAIN_BOARD_ID e \<in> set U \<and> map cv_id (committees app) \<noteq> [MAIN_BOARD_ID e])
                \<or> (MAIN_BOARD_ID e \<notin> set U \<and> set U \<inter> cv_id ` set (committees app) \<noteq> {})
             then 200 else 403))"
proof (intro conjI impI)
  show "a \<in> set (scopeStage e U apps) \<longleftrightarrow>
      a \<in> set apps \<and>
      (ELECTION_COMMITTEE_ID e \<in> set U
       \<or> (MAIN_BOARD_ID e \<in> set U \<and> committees a \<noteq> [MAIN_BOARD_ID e])
       \<or> (MAIN_BOARD_ID e \<notin> set U \<and> set U \<inter> set (committees a) \<noteq> {}))"
    by (rule scopeStage_admits)
next
  assume h: "\<not> falsy_number (ntnuiNo req)
        \<and> getUserCommitteeIdsByUserId e db (the (ntnuiNo req)) = Inr U
        \<and> findApplication e db (application_id req) = Inr app
        \<and> committees app \<noteq> []"
  then have "getApplicationById e req db = authorizeApplication e U app"
    by (simp add: getApplicationById_def truthy_array_def)
  with h show "httpStatus (getApplicationById e req db) =
            (if ELECTION_COMMITTEE_ID e \<in> set U
                \<or> (MAIN_BOARD_ID e \<in> set U \<and> map cv_id (committees app) \<noteq> [MAIN_BOARD_ID e])
                \<or> (MAIN_BOARD_ID e \<notin> set U \<and> set U \<inter> cv_id ` set (committees app) \<noteq> {})
             then 200 else 403)"
    using authorizeApplication_status[of app e U] by simp
qed

text \<open>The theorem at user 11 (committee 7) and application 2, addressed to the Main Board and
  the committees 7 and 9.\<close>

lemma example_user_11:
  "getUserCommitteeIdsByUserId example_env example_db 11 = Inr [7]"
  by (simp add: getUserCommitteeIdsByUserId_def fails_def example_defs)

lemma example_find_2:
  "findApplication example_env example_db 2 = Inr (populate example_db example_app2)"
  by (simp add: findApplication_def fails_def example_defs)

lemma example_populate_2:
  "committees (populate example_db example_app2) =
     [\<lparr>cv_id = 8, cv_name = ''Main Board'', cv_slug = ''main-board''\<rparr>,
      \<lparr>cv_id = 7, cv_name = ''Sprint'', cv_slug = ''sprint''\<rparr>,
      \<lparr>cv_id = 9, cv_name = ''Dance'', cv_slug = ''dance''\<rparr>]"
  by (simp add: populate_def populateCommittee_def findCommittee_def example_defs)

theorem visibility_policy_witness:
  "example_app2 \<in> set (scopeStage example_env [7] (Applications example_db))
   \<and> httpStatus (getApplicationById example_env (example_request (Some 11) 2) example_db) = 200"
proof -
  have h: "\<not> falsy_number (ntnuiNo (example_request (Some 11) 2))
      \<and> getUserCommitteeIdsByUserId example_env example_db (the (ntnuiNo (example_request (Some 11) 2))) = Inr [7]
      \<and> findApplication example_env example_db (application_id (example_request (Some 11) 2))
          = Inr (populate example_db example_app2)
      \<and> committees (populate example_db example_app2) \<noteq> []"
    using example_user_11 example_find_2 example_populate_2
    by (simp add: falsy_number_def example_request_def)
  have "ELECTION_COMMITTEE_ID example_env = 1" "MAIN_BOARD_ID example_env = 8"
    "committees example_app2 = [8, 7, 9]" "Applications example_db = [example_app1, example_app2]"
    by (simp_all add: example_defs)
  with h example_populate_2
    visibility_policy[of example_app2 example_env "[7]" "Applications example_db"
      "example_request (Some 11) 2" example_db "populate example_db example_app2"]
  show ?thesis by simp
qed

text \<open>
  Claim C1 as it is stated fails for a Main Board member and an application addressed to
  the Main Board alone: the caller's committees intersect the application's, the third
  alternative of the claim, yet the scope stage leaves the application out and the get-by-id
  endpoint answers 403.
\<close>

theorem visibility_policy_counterexample:
  "\<not> (example_app1 \<in> set (scopeStage example_env [8] (Applications example_db)) \<longleftrightarrow>
        (ELECTION_COMMITTEE_ID example_env \<in> set [8]
         \<or> (MAIN_BOARD_ID example_env \<in> set [8]
             \<and> committees example_app1 \<noteq> [MAIN_BOARD_ID example_env])
         \<or> set [8] \<inter> set (committees example_app1) \<noteq> {}))
   \<and> getUserCommitteeIdsByUserId example_env example_db 10 = Inr [8]
   \<and> httpStatus (getApplicationById example_env (example_request (Some 10) 1) example_db) = 403"
proof -
  have u: "getUserCommitteeIdsByUserId example_env example_db 10 = Inr [8]"
    by (simp add: getUserCommitteeIdsByUserId_def fails_def example_defs)
  have f: "findApplication example_env example_db 1 = Inr (populate example_db example_app1)"
    by (simp add: findApplication_def fails_def example_defs)
  have p: "committees (populate example_db example_app1) =
     [\<lparr>cv_id = 8, cv_name = ''Main Board'', cv_slug = ''main-board''\<rparr>]"
    by (simp add: populate_def populateCommittee_def findCommittee_def example_defs)
  have m: "fst (mainBoardLoop 8 0 (committees (populate example_db example_app1))
             (statuses (populate example_db example_app1))) = []"
    unfolding p by (simp add: mainBoardLoop.simps splice1_def)
  have "getApplicationById example_env (example_request (Some 10) 1) example_db =
      Json 403 (Message ''You do not have access to this application'')"
    using u f m
    by (simp add: getApplicationById_def authorizeApplication_def falsy_number_def truthy_array_def
        example_request_def example_env_def Let_def)
  moreover have "example_app1 \<notin> set (scopeStage example_env [8] (Applications example_db))"
    by (simp add: scopeStage_def array_ne_def example_defs)
  ultimately show ?thesis using u by (simp add: example_defs)
qed

section \<open>Redaction\<close>

lemma filter_parallel_nths:
  assumes "map f ss = map g cs"
  shows "filter (\<lambda>s. f s \<noteq> mb) ss = nths ss {j. j < length cs \<longrightarrow> g (cs ! j) \<noteq> mb}"
proof -
  have len: "length ss = length cs"
    using assms by (metis length_map)
  have "f (ss ! j) = g (cs ! j)" if "j < length cs" for j
    using that assms len by (metis nth_map)
  then have "{j. j < length ss \<longrightarrow> f (ss ! j) \<noteq> mb} = {j. j < length cs \<longrightarrow> g (cs ! j) \<noteq> mb}"
    using len by auto
  then show ?thesis by (simp add: filter_nths_total)
qed

lemma mainBoardLoop_nths:
  "mainBoardLoop mb 0 cs ss =
     (let k = length (takeWhile (\<lambda>c. cv_id c \<noteq> mb) cs);
          I = (if k < length cs then {j. j \<noteq> k} else UNIV)
      in (nths cs I, nths ss I))"
  by (simp add: mainBoardLoop_eq Let_def splice1_nths nths_all)

lemma ordinaryLoop_nths:
  "snd (ordinaryLoop mb u 0 False cs ss) =
     (let I = {j. j < length cs \<longrightarrow> cv_id (cs ! j) \<in> set u \<or> cv_id (cs ! j) \<noteq> mb}
      in (nths cs I, nths ss I))"
  by (simp add: ordinaryLoop_eq Let_def keepBy_nths filter_nths_total)

lemma redactApplication_nths:
  assumes "map se_committee (statuses a) = map cv_id (committees a)"
  shows "committees (redactApplication mb a) =
           nths (committees a) {j. j < length (committees a) \<longrightarrow> cv_id (committees a ! j) \<noteq> mb}
       \<and> statuses (redactApplication mb a) =
           nths (statuses a) {j. j < length (committees a) \<longrightarrow> cv_id (committees a ! j) \<noteq> mb}"
  using filter_parallel_nths[OF assms, of mb]
  by (simp add: redactApplication_def filter_nths_total)

lemma example_three:
  assumes "cv_id c0 \<noteq> mb" "cv_id c1 = mb" "cv_id c2 \<noteq> mb"
  shows "mainBoardLoop mb 0 [c0, c1, c2] [s0, s1, s2] = ([c0, c2], [s0, s2])"
    and "mb \<notin> set u \<Longrightarrow> snd (ordinaryLoop mb u 0 False [c0, c1, c2] [s0, s1, s2]) = ([c0, c2], [s0, s2])"
  using assms by (auto simp: mainBoardLoop_eq ordinaryLoop_eq splice1_def)

text \<open>
  Claim C2, as amended. The get-by-id endpoint removes the same positions from the
  committees and from the statuses: the position of the first Main Board committee for a
  Main Board caller, the positions of the Main Board committees that are not the caller's own
  for an ordinary caller. The list endpoint filters the committees by their id and the
  statuses by their committee, each array on its own; where the status at each position
  belongs to the committee at that position, it removes the same positions from both. So
  committees \<open>[c0, c1, c2]\<close> and statuses \<open>[s0, s1, s2]\<close> with only \<open>c1\<close> the Main Board yield
  \<open>[c0, c2]\<close> and \<open>[s0, s2]\<close>.
\<close>

theorem redaction_alignment:
  "(let k = length (takeWhile (\<lambda>c. cv_id c \<noteq> mb) cs);
        I = (if k < length cs then {j. j \<noteq> k} else UNIV)
    in mainBoardLoop mb 0 cs ss = (nths cs I, nths ss I))
   \<and> (let I = {j. j < length cs \<longrightarrow> cv_id (cs ! j) \<in> set u \<or> cv_id (cs ! j) \<noteq> mb}
      in snd (ordinaryLoop mb u 0 False cs ss) = (nths cs I, nths ss I))
   \<and> (map se_committee (statuses a) = map cv_id (committees a) \<longrightarrow>
        (let I = {j. j < length (committees a) \<longrightarrow> cv_id (committees a ! j) \<noteq> mb}
         in committees (redactApplication mb a) = nths (committees a) I
            \<and> statuses (redactApplication mb a) = nths (statuses a) I))
   \<and> (cv_id c0 \<noteq> mb \<and> cv_id c1 = mb \<and> cv_id c2 \<noteq> mb \<longrightarrow>
        mainBoardLoop mb 0 [c0, c1, c2] [s0, s1, s2] = ([c0, c2], [s0, s2])
        \<and> (mb \<notin> set u \<longrightarrow>
             snd (ordinaryLoop mb u 0 False [c0, c1, c2] [s0, s1, s2]) = ([c0, c2], [s0, s2]))
        \<and> (map se_committee [t0, t1, t2] = map cv_id [c0, c1, c2] \<longrightarrow>
             committees (redactApplication mb (b\<lparr>committees := [c0, c1, c2], statuses := [t0, t1, t2]\<rparr>))
               = [c0, c2]
             \<and> statuses (redactApplication mb (b\<lparr>committees := [c0, c1, c2], statuses := [t0, t1, t2]\<rparr>))
               = [t0, t2]))"
proof (intro conjI impI)
  show "let k = length (takeWhile (\<lambda>c. cv_id c \<noteq> mb) cs);
        I = (if k < length cs then {j. j \<noteq> k} else UNIV)
    in mainBoardLoop mb 0 cs ss = (nths cs I, nths ss I)"
    by (simp add: mainBoardLoop_nths Let_def)
  show "let I = {j. j < length cs \<longrightarrow> cv_id (cs ! j) \<in> set u \<or> cv_id (cs ! j) \<noteq> mb}
      in snd (ordinaryLoop mb u 0 False cs ss) = (nths cs I, nths ss I)"
    by (simp add: ordinaryLoop_nths Let_def)
  show "let I = {j. j < length (committees a) \<longrightarrow> cv_id (committees a ! j) \<noteq> mb}
         in committees (redactApplication mb a) = nths (committees a) I
            \<and> statuses (redactApplication mb a) = nths (statuses a) I"
    if "map se_committee (statuses a) = map cv_id (committees a)"
    using redactApplication_nths[OF that, of mb] by (simp add: Let_def)
next
  assume h: "cv_id c0 \<noteq> mb \<and> cv_id c1 = mb \<and> cv_id c2 \<noteq> mb"
  then show "mainBoardLoop mb 0 [c0, c1, c2] [s0, s1, s2] = ([c0, c2], [s0, s2])"
    by (simp add: example_three(1))
  show "snd (ordinaryLoop mb u 0 False [c0, c1, c2] [s0, s1, s2]) = ([c0, c2], [s0, s2])"
    if "mb \<notin> set u"
    using h that by (simp add: example_three(2))
  assume t: "map se_committee [t0, t1, t2] = map cv_id [c0, c1, c2]"
  with h show "committees (redactApplication mb (b\<lparr>committees := [c0, c1, c2], statuses := [t0, t1, t2]\<rparr>))
               = [c0, c2]"
    by (simp add: redactApplication_def)
  from t h show "statuses (redactApplication mb (b\<lparr>committees := [c0, c1, c2], statuses := [t0, t1, t2]\<rparr>))
               = [t0, t2]"
    by (simp add: redactApplication_def)
qed

text \<open>The theorem at the committees 7, Main Board and 9.\<close>

theorem redaction_alignment_witness:
  "mainBoardLoop 8 0 [example_sprint, example_main_board, example_dance] [10, 11, 12 :: nat]
     = ([example_sprint, example_dance], [10, 12])
   \<and> snd (ordinaryLoop 8 [7] 0 False [example_sprint, example_main_board, example_dance]
            [10, 11, 12 :: nat])
     = ([example_sprint, example_dance], [10, 12])
   \<and> committees (redactApplication 8 (example_listed\<lparr>statuses :=
         [\<lparr>se_committee = 7\<rparr>, \<lparr>se_committee = 8\<rparr>, \<lparr>se_committee = 9\<rparr>]\<rparr>))
     = [example_sprint, example_dance]
   \<and> statuses (redactApplication 8 (example_listed\<lparr>statuses :=
         [\<lparr>se_committee = 7\<rparr>, \<lparr>se_committee = 8\<rparr>, \<lparr>se_committee = 9\<rparr>]\<rparr>))
     = [\<lparr>se_committee = 7\<rparr>, \<lparr>se_committee = 9\<rparr>]"
proof -
  have h: "cv_id example_sprint \<noteq> 8 \<and> cv_id example_main_board = 8 \<and> cv_id example_dance \<noteq> 8"
    by (simp add: example_defs)
  have t: "map se_committee [\<lparr>se_committee = 7\<rparr>, \<lparr>se_committee = 8\<rparr>, \<lparr>se_committee = 9\<rparr>]
      = map cv_id [example_sprint, example_main_board, example_dance]"
    by (simp add: example_defs)
  have u: "(8::int) \<notin> set [7]" by simp
  have e: "example_listed\<lparr>committees := [example_sprint, example_main_board, example_dance],
             statuses := [\<lparr>se_committee = 7\<rparr>, \<lparr>se_committee = 8\<rparr>, \<lparr>se_committee = 9\<rparr>]\<rparr>
         = example_listed\<lparr>statuses := [\<lparr>se_committee = 7\<rparr>, \<lparr>se_committee = 8\<rparr>, \<lparr>se_committee = 9\<rparr>]\<rparr>"
    by (simp add: example_listed_def)
  from redaction_alignment[where mb = 8 and u = "[7]" and cs = "[example_sprint, example_main_board, example_dance]" and ss = "[10, 11, 12 :: nat]"
      and a = "example_listed\<lparr>statuses :=
         [\<lparr>se_committee = 7\<rparr>, \<lparr>se_committee = 8\<rparr>, \<lparr>se_committee = 9\<rparr>]\<rparr>" and ?c0.0 = example_sprint
      and ?c1.0 = example_main_board and ?c2.0 = example_dance
      and ?s0.0 = "10::nat" and ?s1.0 = 11 and ?s2.0 = 12
      and ?t0.0 = "\<lparr>se_committee = 7\<rparr>" and ?t1.0 = "\<lparr>se_committee = 8\<rparr>"
      and ?t2.0 = "\<lparr>se_committee = 9\<rparr>" and b = example_listed] h t u e
  show ?thesis by simp
qed

text \<open>
  Claim C2 as it is stated fails in the list endpoint. For user 11 the pipeline returns
  application 2 with the committees in the order of the committee collection, the Main
  Board at position 1, and the statuses in the order of the status collection, the status
  of the Main Board at position 0. The redaction removes position 1 of the committees and
  position 0 of the statuses: the statuses left are \<open>[s1, s2]\<close>, not \<open>[s0, s2]\<close>.
\<close>

theorem redaction_alignment_counterexample:
  "aggregate example_env [7] (example_request (Some 11) 0) example_db
     = Some (Inr \<lparr>r_applications = [example_listed],
                  r_pagination = Some \<lparr>currentPage = 0, numberOfPages = 1\<rparr>\<rparr>)
   \<and> committees example_listed = [example_sprint, example_main_board, example_dance]
   \<and> cv_id example_main_board = MAIN_BOARD_ID example_env
   \<and> statuses example_listed = [\<lparr>se_committee = 8\<rparr>, \<lparr>se_committee = 7\<rparr>, \<lparr>se_committee = 9\<rparr>]
   \<and> committees (redactApplication (MAIN_BOARD_ID example_env) example_listed)
       = [example_sprint, example_dance]
   \<and> statuses (redactApplication (MAIN_BOARD_ID example_env) example_listed)
       = [\<lparr>se_committee = 7\<rparr>, \<lparr>se_committee = 9\<rparr>]
   \<and> statuses (redactApplication (MAIN_BOARD_ID example_env) example_listed)
       \<noteq> [\<lparr>se_committee = 8\<rparr>, \<lparr>se_committee = 9\<rparr>]"
proof -
  have a: "aggregate example_env [7] (example_request (Some 11) 0) example_db
     = Some (Inr \<lparr>r_applications = [example_listed],
                  r_pagination = Some \<lparr>currentPage = 0, numberOfPages = 1\<rparr>\<rparr>)"
    by code_simp
  have r: "redactApplication (MAIN_BOARD_ID example_env) example_listed =
     \<lparr>a_id = 2, a_name = ''Alice'', submitted_date = 20,
      committees = [example_sprint, example_dance],
      statuses = [\<lparr>se_committee = 7\<rparr>, \<lparr>se_committee = 9\<rparr>]\<rparr>"
    by (simp add: redactApplication_def example_defs)
  show ?thesis using a r by (simp add: example_defs)
qed

section \<open>The status and committee filter\<close>

lemma parseInt_7: "parseInt ''7'' = Some 7"
  by code_simp

text \<open>
  Claim C3. When both a status and a committee filter are supplied, the filter stage keeps
  an application exactly when one of its status entries has both its committee among the
  supplied committee ids and its value equal to the supplied status. An application with
  the statuses (committee 7, Pending) and (committee 9, Accepted) does not pass the
  committee filter 7 with the status filter Accepted, although one entry has committee 7
  and another has the value Accepted.
\<close>

theorem conjunctive_filter:
  "(v \<noteq> [] \<and> truthy_committee committee \<longrightarrow>
      (a \<in> set (filterStage (Some v) committee apps) \<longleftrightarrow>
         a \<in> set apps
         \<and> (\<exists>s \<in> set (statuses a).
               Some (s_committee s) \<in> set (queryCommitteeIds committee) \<and> s_value s = v)))
   \<and> queryCommitteeIds (Some (One ''7'')) = [Some 7]
   \<and> queryCommitteeIds (Some (Many [''7''])) = [Some 7]
   \<and> (statuses a = [\<lparr>s_id = i, s_committee = 7, s_value = statusTypeValue PENDING\<rparr>,
                     \<lparr>s_id = j, s_committee = 9, s_value = statusTypeValue ACCEPTED\<rparr>] \<longrightarrow>
        a \<notin> set (filterStage (Some (statusTypeValue ACCEPTED)) (Some (One ''7'')) apps)
        \<and> a \<notin> set (filterStage (Some (statusTypeValue ACCEPTED)) (Some (Many [''7''])) apps)
        \<and> (\<exists>s \<in> set (statuses a). Some (s_committee s) \<in> set (queryCommitteeIds (Some (One ''7''))))
        \<and> (\<exists>s \<in> set (statuses a). s_value s = statusTypeValue ACCEPTED))"
  by (auto simp: filterStage_def truthy_string_def parseInt_7)

text \<open>The theorem at an application with exactly these two statuses and the committee
  filter 9: there the application passes, and with the committee filter 7 it does not.\<close>

theorem conjunctive_filter_witness:
  "\<lparr>a_id = 5, a_name = ''Eve'', submitted_date = 0, committees = [7, 9],
     statuses = [\<lparr>s_id = 0, s_committee = 7, s_value = ''Pending''\<rparr>,
                 \<lparr>s_id = 1, s_committee = 9, s_value = ''Accepted''\<rparr>]\<rparr>
     \<in> set (filterStage (Some ''Accepted'') (Some (One ''9''))
          [\<lparr>a_id = 5, a_name = ''Eve'', submitted_date = 0, committees = [7, 9],
             statuses = [\<lparr>s_id = 0, s_committee = 7, s_value = ''Pending''\<rparr>,
                         \<lparr>s_id = 1, s_committee = 9, s_value = ''Accepted''\<rparr>]\<rparr>])
   \<and> \<lparr>a_id = 5, a_name = ''Eve'', submitted_date = 0, committees = [7, 9],
       statuses = [\<lparr>s_id = 0, s_committee = 7, s_value = ''Pending''\<rparr>,
                   \<lparr>s_id = 1, s_committee = 9, s_value = ''Accepted''\<rparr>]\<rparr>
     \<notin> set (filterStage (Some ''Accepted'') (Some (One ''7''))
          [\<lparr>a_id = 5, a_name = ''Eve'', submitted_date = 0, committees = [7, 9],
             statuses = [\<lparr>s_id = 0, s_committee = 7, s_value = ''Pending''\<rparr>,
                         \<lparr>s_id = 1, s_committee = 9, s_value = ''Accepted''\<rparr>]\<rparr>])"
proof -
  let ?a = "\<lparr>a_id = 5, a_name = ''Eve'', submitted_date = 0, committees = [7, 9],
     statuses = [\<lparr>s_id = 0, s_committee = 7, s_value = ''Pending''\<rparr>,
                 \<lparr>s_id = 1, s_committee = 9, s_value = ''Accepted''\<rparr>]\<rparr>"
  have p: "parseInt ''9'' = Some 9"
    by code_simp
  have h: "''Accepted'' \<noteq> [] \<and> truthy_committee (Some (One ''9''))" by simp
  have s: "statuses ?a = [\<lparr>s_id = 0, s_committee = 7, s_value = statusTypeValue PENDING\<rparr>,
                     \<lparr>s_id = 1, s_committee = 9, s_value = statusTypeValue ACCEPTED\<rparr>]" by simp
  from conjunctive_filter[where v = "''Accepted''" and committee = "Some (One ''9'')"
      and a = ?a and apps = "[?a]" and i = 0 and j = 1] h p s
  show ?thesis by simp
qed

section \<open>Pagination\<close>

lemma ceiling_quarter: "\<lceil>real n / 4\<rceil> = int ((n + 3) div 4)"
proof -
  have "\<lceil>real n / 4\<rceil> = \<lceil>real_of_int (int n) / real_of_int 4\<rceil>" by simp
  also have "\<dots> = - ((- int n) div 4)"
    by (simp only: ceiling_divide_eq_div)
  also have "\<dots> = int ((n + 3) div 4)" by (simp add: zdiv_int)
  finally show ?thesis .
qed

lemma paginationStage_nonempty:
  assumes "apps \<noteq> []" "page = None \<or> (\<exists>p\<ge>1. page = Some p)"
  shows "paginationStage page apps =
     Some \<lparr>f_applications = take 4 (drop (case page of None \<Rightarrow> 0 | Some p \<Rightarrow> nat ((p - 1) * 4)) apps),
           f_pagination = [(length apps,
              \<lparr>currentPage = (case page of None \<Rightarrow> 0 | Some p \<Rightarrow> p),
               numberOfPages = \<lceil>real (length apps) / 4\<rceil>\<rparr>)]\<rparr>"
  using assms by (auto simp: paginationStage_def startIndex_def LIMIT_def)

text \<open>
  Claim C4, as amended. For every non-empty input and every requested page that is at least
  1, or none, the pagination stage returns the window of at most 4 items after skipping
  \<open>(page - 1) * 4\<close> items (none without a page), and one pagination document with the
  requested page (0 without a page) and \<open>ceil (total / 4)\<close> pages. With 10 items, page 1
  has 4 items and 3 pages are reported, page 3 has 2 items, and no page gives
  \<open>currentPage = 0\<close>.
\<close>

theorem pagination_stage:
  "(apps \<noteq> [] \<and> (page = None \<or> (\<exists>p\<ge>1. page = Some p)) \<longrightarrow>
      paginationStage page apps =
        Some \<lparr>f_applications =
                take 4 (drop (case page of None \<Rightarrow> 0 | Some p \<Rightarrow> nat ((p - 1) * 4)) apps),
              f_pagination = [(length apps,
                \<lparr>currentPage = (case page of None \<Rightarrow> 0 | Some p \<Rightarrow> p),
                 numberOfPages = \<lceil>real (length apps) / 4\<rceil>\<rparr>)]\<rparr>
      \<and> \<lceil>real (length apps) / 4\<rceil> = int ((length apps + 3) div 4))
   \<and> (length apps = 10 \<longrightarrow>
        paginationStage (Some 1) apps =
          Some \<lparr>f_applications = take 4 apps,
                f_pagination = [(10, \<lparr>currentPage = 1, numberOfPages = 3\<rparr>)]\<rparr>
        \<and> length (take 4 apps) = 4
        \<and> paginationStage (Some 3) apps =
          Some \<lparr>f_applications = drop 8 apps,
                f_pagination = [(10, \<lparr>currentPage = 3, numberOfPages = 3\<rparr>)]\<rparr>
        \<and> length (drop 8 apps) = 2
        \<and> paginationStage None apps =
          Some \<lparr>f_applications = take 4 apps,
                f_pagination = [(10, \<lparr>currentPage = 0, numberOfPages = 3\<rparr>)]\<rparr>)"
proof (intro conjI impI)
  assume h: "apps \<noteq> [] \<and> (page = None \<or> (\<exists>p\<ge>1. page = Some p))"
  then show "paginationStage page apps =
        Some \<lparr>f_applications =
                take 4 (drop (case page of None \<Rightarrow> 0 | Some p \<Rightarrow> nat ((p - 1) * 4)) apps),
              f_pagination = [(length apps,
                \<lparr>currentPage = (case page of None \<Rightarrow> 0 | Some p \<Rightarrow> p),
                 numberOfPages = \<lceil>real (length apps) / 4\<rceil>\<rparr>)]\<rparr>"
    by (simp add: paginationStage_nonempty)
  show "\<lceil>real (length apps) / 4\<rceil> = int ((length apps + 3) div 4)"
    by (rule ceiling_quarter)
next
  assume t: "length apps = 10"
  then have ne: "apps \<noteq> []" by auto
  have c: "\<lceil>real (length apps) / 4\<rceil> = 3" using t by (simp add: ceiling_quarter)
  show "paginationStage (Some 1) apps =
          Some \<lparr>f_applications = take 4 apps,
                f_pagination = [(10, \<lparr>currentPage = 1, numberOfPages = 3\<rparr>)]\<rparr>"
    using paginationStage_nonempty[OF ne, of "Some 1"] c t by simp
  show "length (take 4 apps) = 4" using t by simp
  show "paginationStage (Some 3) apps =
          Some \<lparr>f_applications = drop 8 apps,
                f_pagination = [(10, \<lparr>currentPage = 3, numberOfPages = 3\<rparr>)]\<rparr>"
    using paginationStage_nonempty[OF ne, of "Some 3"] c t by simp
  show "length (drop 8 apps) = 2" using t by simp
  show "paginationStage None apps =
          Some \<lparr>f_applications = take 4 apps,
                f_pagination = [(10, \<lparr>currentPage = 0, numberOfPages = 3\<rparr>)]\<rparr>"
    using paginationStage_nonempty[OF ne, of None] c t by simp
qed

text \<open>The theorem at ten items and page 3.\<close>

theorem pagination_stage_witness:
  "paginationStage (Some 3) [0, 1, 2, 3, 4, 5, 6, 7, 8, 9 :: nat] =
     Some \<lparr>f_applications = [8, 9],
           f_pagination = [(10, \<lparr>currentPage = 3, numberOfPages = 3\<rparr>)]\<rparr>
   \<and> paginationStage (Some 1) [0, 1, 2, 3, 4, 5, 6, 7, 8, 9 :: nat] =
     Some \<lparr>f_applications = [0, 1, 2, 3],
           f_pagination = [(10, \<lparr>currentPage = 1, numberOfPages = 3\<rparr>)]\<rparr>"
proof -
  have h: "[0, 1, 2, 3, 4, 5, 6, 7, 8, 9 :: nat] \<noteq> [] \<and> (Some (3::int) = None \<or> (\<exists>p\<ge>1. Some (3::int) = Some p))"
    by simp
  have l: "length [0, 1, 2, 3, 4, 5, 6, 7, 8, 9 :: nat] = 10" by simp
  from pagination_stage[where apps = "[0, 1, 2, 3, 4, 5, 6, 7, 8, 9 :: nat]" and page = "Some 3"] h l
  show ?thesis by simp
qed

text \<open>
  Claim C4 as it is stated fails for a total of zero: the stage then emits no pagination
  document, so that the projection finds neither \<open>currentPage\<close> nor \<open>numberOfPages\<close>, and
  the endpoint answers a request without a page with \<open>currentPage = 1\<close>, not 0.
\<close>

theorem pagination_stage_counterexample:
  "paginationStage None ([] :: (committee, status) application list)
     = Some \<lparr>f_applications = [], f_pagination = []\<rparr>
   \<and> r_pagination (projection \<lparr>f_applications = [], f_pagination = []\<rparr>) = None
   \<and> q_page ((example_request (Some 11) 0)\<lparr>q_name := Some ''zzz''\<rparr>) = None
   \<and> matchedApplications example_env [7] ((example_request (Some 11) 0)\<lparr>q_name := Some ''zzz''\<rparr>)
        example_db = Some []
   \<and> getApplications example_env ((example_request (Some 11) 0)\<lparr>q_name := Some ''zzz''\<rparr>) example_db
     = Some (Json 200 (ListBody
         \<lparr>r_applications = [], r_pagination = Some \<lparr>currentPage = 1, numberOfPages = 0\<rparr>\<rparr>))"
proof (intro conjI)
  show "paginationStage None ([] :: (committee, status) application list)
     = Some \<lparr>f_applications = [], f_pagination = []\<rparr>"
    by (simp add: paginationStage_def startIndex_def)
  show "r_pagination (projection \<lparr>f_applications = [], f_pagination = []\<rparr>) = None"
    by (simp add: projection_def)
  show "q_page ((example_request (Some 11) 0)\<lparr>q_name := Some ''zzz''\<rparr>) = None"
    by (simp add: example_request_def)
  show "matchedApplications example_env [7] ((example_request (Some 11) 0)\<lparr>q_name := Some ''zzz''\<rparr>)
        example_db = Some []"
    by code_simp
  show "getApplications example_env ((example_request (Some 11) 0)\<lparr>q_name := Some ''zzz''\<rparr>) example_db
     = Some (Json 200 (ListBody
         \<lparr>r_applications = [], r_pagination = Some \<lparr>currentPage = 1, numberOfPages = 0\<rparr>\<rparr>))"
    by code_simp
qed

lemma redactResponse_empty: "redactResponse e U emptyResponse = emptyResponse"
  by (simp add: redactResponse_def emptyResponse_def)

text \<open>A query with a match set has no name filter that the database refuses.\<close>

lemma matched_not_refused:
  assumes "matchedApplications e U req db = Some matched"
  shows "\<not> (truthy_string (q_name req) \<and> unclosedGroup (the (q_name req)))"
proof
  assume a: "truthy_string (q_name req) \<and> unclosedGroup (the (q_name req))"
  from assms obtain named
    where "nameStage (q_name req) (scopeStage e U (Applications db)) = Some named"
    by (auto simp: matchedApplications_def)
  with a have "interpreted (the (q_name req))"
    by (auto simp: nameStage_def split: if_splits)
  with a show False
    by (auto simp: interpreted_def unclosedGroup_def ordinary_def metacharacters_def)
qed

text \<open>
  Claim C10. When the requested page lies beyond the last page of a non-empty match set, so
  that the window is empty although the total is positive, the list endpoint answers 200
  with no applications and the pagination \<open>{currentPage: 1, numberOfPages: 0}\<close>.
\<close>

theorem out_of_range_page:
  "\<not> falsy_number (ntnuiNo req)
   \<and> getUserCommitteeIdsByUserId e db (the (ntnuiNo req)) = Inr U
   \<and> validation_errors req = []
   \<and> \<not> fails e ApplicationAggregate
   \<and> matchedApplications e U req db = Some matched
   \<and> matched \<noteq> []
   \<and> q_page req = Some p
   \<and> int (length matched) \<le> (p - 1) * 4
   \<longrightarrow> getApplications e req db =
         Some (Json 200 (ListBody
           \<lparr>r_applications = [], r_pagination = Some \<lparr>currentPage = 1, numberOfPages = 0\<rparr>\<rparr>))"
proof
  assume h: "\<not> falsy_number (ntnuiNo req)
   \<and> getUserCommitteeIdsByUserId e db (the (ntnuiNo req)) = Inr U
   \<and> validation_errors req = []
   \<and> \<not> fails e ApplicationAggregate
   \<and> matchedApplications e U req db = Some matched
   \<and> matched \<noteq> []
   \<and> q_page req = Some p
   \<and> int (length matched) \<le> (p - 1) * 4"
  then have "paginationStage (q_page req) matched =
      Some \<lparr>f_applications = [],
            f_pagination = [(length matched,
              \<lparr>currentPage = p, numberOfPages = \<lceil>real (length matched) / real LIMIT\<rceil>\<rparr>)]\<rparr>"
    by (auto simp: paginationStage_def startIndex_def LIMIT_def)
  moreover have "\<not> startIndex (q_page req) < 0"
    using h by (simp add: startIndex_def LIMIT_def)
  moreover have "\<not> (truthy_string (q_name req) \<and> unclosedGroup (the (q_name req)))"
    using h matched_not_refused[of e U req db matched] by simp
  ultimately have "aggregate e U req db = Some (Inr emptyResponse)"
    using h by (simp add: aggregate_def projection_def)
  then show "getApplications e req db =
         Some (Json 200 (ListBody
           \<lparr>r_applications = [], r_pagination = Some \<lparr>currentPage = 1, numberOfPages = 0\<rparr>\<rparr>))"
    using h redactResponse_empty[of e U]
    by (simp add: getApplications_def truthy_array_def emptyResponse_def)
qed

text \<open>The theorem at the Election Committee member 13, who matches both applications, and
  page 2.\<close>

theorem out_of_range_page_witness:
  "getApplications example_env ((example_request (Some 13) 0)\<lparr>q_page := Some 2\<rparr>) example_db =
     Some (Json 200 (ListBody
       \<lparr>r_applications = [], r_pagination = Some \<lparr>currentPage = 1, numberOfPages = 0\<rparr>\<rparr>))"
proof -
  let ?req = "(example_request (Some 13) 0)\<lparr>q_page := Some 2\<rparr>"
  let ?m = "map (lookupCommittees example_db) (map (lookupStatuses example_db) [example_app1, example_app2])"
  have m: "matchedApplications example_env [1] ?req example_db = Some ?m"
    by (simp add: matchedApplications_def nameStage_def scopeStage_def filterStage_def
        sortStage_def truthy_string_def example_request_def example_env_def example_db_def)
  have u: "getUserCommitteeIdsByUserId example_env example_db 13 = Inr [1]"
    by (simp add: getUserCommitteeIdsByUserId_def fails_def example_defs)
  have h: "\<not> falsy_number (ntnuiNo ?req)
   \<and> getUserCommitteeIdsByUserId example_env example_db (the (ntnuiNo ?req)) = Inr [1]
   \<and> validation_errors ?req = []
   \<and> \<not> fails example_env ApplicationAggregate
   \<and> matchedApplications example_env [1] ?req example_db = Some ?m
   \<and> ?m \<noteq> []
   \<and> q_page ?req = Some 2
   \<and> int (length ?m) \<le> (2 - 1) * 4"
    using m u by (simp add: falsy_number_def fails_def example_request_def example_env_def)
  from out_of_range_page[where req = ?req and e = example_env and db = example_db
      and U = "[1]" and matched = ?m and p = 2] h
  show ?thesis by blast
qed

section \<open>The wipe endpoint: authorization and effect\<close>

lemma wipeCollections_ok:
  assumes "\<not> fails e ApplicationDeleteMany" "\<not> fails e StatusDeleteMany"
    "\<not> fails e UserDeleteMany" "\<not> fails e AdmissionPeriodDeleteMany"
    "\<not> fails e CommitteeUpdateMany"
  shows "wipeCollections e caller db =
     (Json 200 (Message ''Admission data successfully wiped''),
      \<lparr>Applications = [], Statuses = [],
       Users = filter (\<lambda>u. u_id u = caller) (Users db),
       AdmissionPeriods = [],
       Committees = map (\<lambda>c. c\<lparr>accepts_admissions := False\<rparr>) (Committees db)\<rparr>)"
  using assms by (simp add: wipeCollections_def Let_def)

text \<open>
  Claim C5. For a caller who is identified and whose committees are found: when they do not
  contain the Main Board, the wipe answers 403 and leaves the store as it was; when they do,
  and none of the five operations fails, the wipe empties the applications, the statuses and
  the admission periods, keeps of the users only the caller, sets \<open>accepts_admissions\<close> of
  every committee to false, and answers 200.
\<close>

theorem wipe_authorization:
  "\<not> falsy_number (ntnuiNo req)
   \<and> getUserCommitteeIdsByUserId e db (the (ntnuiNo req)) = Inr U \<longrightarrow>
     (MAIN_BOARD_ID e \<notin> set U \<longrightarrow>
        fst (wipeAdmissionData e req db)
          = Next (CustomError ''You do not have access to this resource'' 403)
        \<and> httpStatus (fst (wipeAdmissionData e req db)) = 403
        \<and> snd (wipeAdmissionData e req db) = db)
     \<and> (MAIN_BOARD_ID e \<in> set U
         \<and> \<not> fails e ApplicationDeleteMany \<and> \<not> fails e StatusDeleteMany
         \<and> \<not> fails e UserDeleteMany \<and> \<not> fails e AdmissionPeriodDeleteMany
         \<and> \<not> fails e CommitteeUpdateMany \<longrightarrow>
        fst (wipeAdmissionData e req db) = Json 200 (Message ''Admission data successfully wiped'')
        \<and> httpStatus (fst (wipeAdmissionData e req db)) = 200
        \<and> Applications (snd (wipeAdmissionData e req db)) = []
        \<and> Statuses (snd (wipeAdmissionData e req db)) = []
        \<and> AdmissionPeriods (snd (wipeAdmissionData e req db)) = []
        \<and> Users (snd (wipeAdmissionData e req db))
            = filter (\<lambda>u. u_id u = the (ntnuiNo req)) (Users db)
        \<and> Committees (snd (wipeAdmissionData e req db))
            = map (\<lambda>c. c\<lparr>accepts_admissions := False\<rparr>) (Committees db)
        \<and> (\<forall>c \<in> set (Committees (snd (wipeAdmissionData e req db))). \<not> accepts_admissions c))"
proof (intro impI conjI)
  assume h: "\<not> falsy_number (ntnuiNo req)
   \<and> getUserCommitteeIdsByUserId e db (the (ntnuiNo req)) = Inr U"
  {
    assume "MAIN_BOARD_ID e \<notin> set U"
    with h have "wipeAdmissionData e req db =
        (Next (CustomError ''You do not have access to this resource'' 403), db)"
      by (simp add: wipeAdmissionData_def)
    then show "fst (wipeAdmissionData e req db)
          = Next (CustomError ''You do not have access to this resource'' 403)"
      and "httpStatus (fst (wipeAdmissionData e req db)) = 403"
      and "snd (wipeAdmissionData e req db) = db" by simp_all
  }
  assume m: "MAIN_BOARD_ID e \<in> set U
         \<and> \<not> fails e ApplicationDeleteMany \<and> \<not> fails e StatusDeleteMany
         \<and> \<not> fails e UserDeleteMany \<and> \<not> fails e AdmissionPeriodDeleteMany
         \<and> \<not> fails e CommitteeUpdateMany"
  with h have w: "wipeAdmissionData e req db =
     (Json 200 (Message ''Admission data successfully wiped''),
      \<lparr>Applications = [], Statuses = [],
       Users = filter (\<lambda>u. u_id u = the (ntnuiNo req)) (Users db),
       AdmissionPeriods = [],
       Committees = map (\<lambda>c. c\<lparr>accepts_admissions := False\<rparr>) (Committees db)\<rparr>)"
    by (simp add: wipeAdmissionData_def wipeCollections_ok)
  show "fst (wipeAdmissionData e req db) = Json 200 (Message ''Admission data successfully wiped'')"
    by (simp add: w)
  show "httpStatus (fst (wipeAdmissionData e req db)) = 200" by (simp add: w)
  show "Applications (snd (wipeAdmissionData e req db)) = []" by (simp add: w)
  show "Statuses (snd (wipeAdmissionData e req db)) = []" by (simp add: w)
  show "AdmissionPeriods (snd (wipeAdmissionData e req db)) = []" by (simp add: w)
  show "Users (snd (wipeAdmissionData e req db))
            = filter (\<lambda>u. u_id u = the (ntnuiNo req)) (Users db)" by (simp add: w)
  show "Committees (snd (wipeAdmissionData e req db))
            = map (\<lambda>c. c\<lparr>accepts_admissions := False\<rparr>) (Committees db)" by (simp add: w)
  show "\<forall>c \<in> set (Committees (snd (wipeAdmissionData e req db))). \<not> accepts_admissions c"
    by (simp add: w)
qed

text \<open>The theorem at user 11, who is refused, and at user 10 of the Main Board.\<close>

theorem wipe_authorization_witness:
  "httpStatus (fst (wipeAdmissionData example_env (example_request (Some 11) 0) example_db)) = 403
   \<and> snd (wipeAdmissionData example_env (example_request (Some 11) 0) example_db) = example_db
   \<and> httpStatus (fst (wipeAdmissionData example_env (example_request (Some 10) 0) example_db)) = 200
   \<and> Applications (snd (wipeAdmissionData example_env (example_request (Some 10) 0) example_db)) = []
   \<and> Statuses (snd (wipeAdmissionData example_env (example_request (Some 10) 0) example_db)) = []
   \<and> AdmissionPeriods (snd (wipeAdmissionData example_env (example_request (Some 10) 0) example_db)) = []
   \<and> map u_id (Users (snd (wipeAdmissionData example_env (example_request (Some 10) 0) example_db)))
       = [10]
   \<and> map accepts_admissions
        (Committees (snd (wipeAdmissionData example_env (example_request (Some 10) 0) example_db)))
       = [False, False, False, False]"
proof -
  have u11: "getUserCommitteeIdsByUserId example_env example_db 11 = Inr [7]"
    by (simp add: getUserCommitteeIdsByUserId_def fails_def example_defs)
  have u10: "getUserCommitteeIdsByUserId example_env example_db 10 = Inr [8]"
    by (simp add: getUserCommitteeIdsByUserId_def fails_def example_defs)
  have f: "\<not> fails example_env ApplicationDeleteMany" "\<not> fails example_env StatusDeleteMany"
    "\<not> fails example_env UserDeleteMany" "\<not> fails example_env AdmissionPeriodDeleteMany"
    "\<not> fails example_env CommitteeUpdateMany" "MAIN_BOARD_ID example_env = 8"
    by (simp_all add: fails_def example_env_def)
  have n: "\<not> falsy_number (ntnuiNo (example_request (Some 11) 0))"
    "\<not> falsy_number (ntnuiNo (example_request (Some 10) 0))"
    "the (ntnuiNo (example_request (Some 11) 0)) = 11"
    "the (ntnuiNo (example_request (Some 10) 0)) = 10"
    by (simp_all add: falsy_number_def example_request_def)
  have d: "map u_id (filter (\<lambda>u. u_id u = 10) (Users example_db)) = [10]"
    "map accepts_admissions (map (\<lambda>c. c\<lparr>accepts_admissions := False\<rparr>) (Committees example_db))
       = [False, False, False, False]"
    by (simp_all add: example_db_def)
  from wipe_authorization[where req = "example_request (Some 11) 0" and e = example_env
      and db = example_db and U = "[7]"]
    wipe_authorization[where req = "example_request (Some 10) 0" and e = example_env
      and db = example_db and U = "[8]"]
    u11 u10 f n d
  show ?thesis by simp
qed

section \<open>The submit endpoint: rejections\<close>

lemma find_closed:
  "(find (\<lambda>d. c_id d \<in> set cs \<and> accepts_admissions d = False) ds = None)
     = (\<not> (\<exists>d \<in> set ds. c_id d \<in> set cs \<and> \<not> accepts_admissions d))"
  by (auto simp: find_None_iff)

text \<open>
  Claim C7, as amended. A submission that names a committee with \<open>accepts_admissions = false\<close>
  leaves the store unchanged; while the admission period is active (and the committee
  lookup succeeds) it is answered 400 with the message of the closed committee.
\<close>

theorem closed_committee_rejection:
  "((\<exists>d \<in> set (Committees db). c_id d \<in> set (body_committees req) \<and> \<not> accepts_admissions d)
      \<longrightarrow> snd (postApplication e req db) = db)
   \<and> (admissionPeriodActive e \<and> \<not> fails e CommitteeFindOne
       \<and> (\<exists>d \<in> set (Committees db). c_id d \<in> set (body_committees req) \<and> \<not> accepts_admissions d)
      \<longrightarrow> postApplication e req db =
            (Json 400 (Message ''A committee the application was sent to is closed''), db))"
proof (intro conjI impI)
  assume c: "\<exists>d \<in> set (Committees db). c_id d \<in> set (body_committees req) \<and> \<not> accepts_admissions d"
  then obtain x where
    x: "find (\<lambda>d. c_id d \<in> set (body_committees req) \<and> accepts_admissions d = False) (Committees db)
      = Some x"
    using find_closed[of "body_committees req" "Committees db"] by (cases "find (\<lambda>d. c_id d \<in> set (body_committees req) \<and> accepts_admissions d = False) (Committees db)") auto
  then show "snd (postApplication e req db) = db"
    by (simp add: postApplication_def)
next
  assume h: "admissionPeriodActive e \<and> \<not> fails e CommitteeFindOne
       \<and> (\<exists>d \<in> set (Committees db). c_id d \<in> set (body_committees req) \<and> \<not> accepts_admissions d)"
  then obtain x where
    x: "find (\<lambda>d. c_id d \<in> set (body_committees req) \<and> accepts_admissions d = False) (Committees db)
      = Some x"
    using find_closed[of "body_committees req" "Committees db"] by (cases "find (\<lambda>d. c_id d \<in> set (body_committees req) \<and> accepts_admissions d = False) (Committees db)") auto
  with h show "postApplication e req db =
            (Json 400 (Message ''A committee the application was sent to is closed''), db)"
    by (simp add: postApplication_def)
qed

text \<open>The theorem at a submission to the committees 7 and 9, of which 9 is closed.\<close>

theorem closed_committee_rejection_witness:
  "postApplication example_env ((example_request None 0)\<lparr>body_name := ''Eve'', body_committees := [7, 9]\<rparr>)
     example_db
   = (Json 400 (Message ''A committee the application was sent to is closed''), example_db)"
proof -
  let ?req = "(example_request None 0)\<lparr>body_name := ''Eve'', body_committees := [7, 9]\<rparr>"
  have h: "admissionPeriodActive example_env \<and> \<not> fails example_env CommitteeFindOne
       \<and> (\<exists>d \<in> set (Committees example_db). c_id d \<in> set (body_committees ?req) \<and> \<not> accepts_admissions d)"
    by (simp add: fails_def example_defs)
  from closed_committee_rejection[where e = example_env and req = ?req and db = example_db] h
  show ?thesis by blast
qed

text \<open>
  Claim C7 as it is stated fails while no admission period is active: the same submission
  is then answered 403, the check of the admission period coming first.
\<close>

theorem closed_committee_rejection_counterexample:
  "c_id \<lparr>c_id = 9, c_name = ''Dance'', c_slug = ''dance'', accepts_admissions = False\<rparr>
     \<in> set (body_committees ((example_request None 0)\<lparr>body_name := ''Eve'', body_committees := [7, 9]\<rparr>))
   \<and> \<lparr>c_id = 9, c_name = ''Dance'', c_slug = ''dance'', accepts_admissions = False\<rparr>
     \<in> set (Committees example_db)
   \<and> postApplication (example_env\<lparr>admissionPeriodActive := False\<rparr>)
       ((example_request None 0)\<lparr>body_name := ''Eve'', body_committees := [7, 9]\<rparr>) example_db
     = (Next (CustomError ''Admission period is not active'' 403), example_db)
   \<and> httpStatus (fst (postApplication (example_env\<lparr>admissionPeriodActive := False\<rparr>)
       ((example_request None 0)\<lparr>body_name := ''Eve'', body_committees := [7, 9]\<rparr>) example_db))
     \<noteq> 400"
  by (simp add: postApplication_def example_defs)

text \<open>
  Claim C8. When the bulk insert of the statuses fails, the submit operation creates no
  application: the applications of the store are unchanged and the answer is not 200; where
  the submission reaches the insert, the answer is the error 500 of the failed insert.
\<close>

theorem status_insert_failure:
  "fails e StatusInsertMany \<longrightarrow>
     Applications (snd (postApplication e req db)) = Applications db
     \<and> httpStatus (fst (postApplication e req db)) \<noteq> 200
     \<and> (admissionPeriodActive e \<and> \<not> fails e CommitteeFindOne
         \<and> \<not> (\<exists>d \<in> set (Committees db). c_id d \<in> set (body_committees req) \<and> \<not> accepts_admissions d)
        \<longrightarrow> fst (postApplication e req db)
              = Next (CustomError ''Something went wrong creating statuses'' 500))"
proof
  assume f: "fails e StatusInsertMany"
  show "Applications (snd (postApplication e req db)) = Applications db
     \<and> httpStatus (fst (postApplication e req db)) \<noteq> 200
     \<and> (admissionPeriodActive e \<and> \<not> fails e CommitteeFindOne
         \<and> \<not> (\<exists>d \<in> set (Committees db). c_id d \<in> set (body_committees req) \<and> \<not> accepts_admissions d)
        \<longrightarrow> fst (postApplication e req db)
              = Next (CustomError ''Something went wrong creating statuses'' 500))"
  proof (cases "find (\<lambda>d. c_id d \<in> set (body_committees req) \<and> accepts_admissions d = False) (Committees db)")
    case None
    then have "\<not> (\<exists>d \<in> set (Committees db). c_id d \<in> set (body_committees req) \<and> \<not> accepts_admissions d)"
      using find_closed[of "body_committees req" "Committees db"] by simp
    with None f show ?thesis by (simp add: postApplication_def Let_def)
  next
    case (Some x)
    then have "\<exists>d \<in> set (Committees db). c_id d \<in> set (body_committees req) \<and> \<not> accepts_admissions d"
      using find_closed[of "body_committees req" "Committees db"] by simp
    with Some f show ?thesis by (simp add: postApplication_def Let_def)
  qed
qed

text \<open>The theorem at a submission to the committees 7 and 8 whose insert fails after the
  first status: that status stays in the store, and no application is added.\<close>

theorem status_insert_failure_witness:
  "postApplication (example_env\<lparr>failing := [StatusInsertMany], inserted_before_failure := 1\<rparr>)
       ((example_request None 0)\<lparr>body_name := ''Eve'', body_committees := [7, 8]\<rparr>) example_db
     = (Next (CustomError ''Something went wrong creating statuses'' 500),
        example_db\<lparr>Statuses := Statuses example_db
           @ [\<lparr>s_id = 100, s_committee = 7, s_value = ''Pending''\<rparr>]\<rparr>)
   \<and> Applications (snd (postApplication
        (example_env\<lparr>failing := [StatusInsertMany], inserted_before_failure := 1\<rparr>)
        ((example_request None 0)\<lparr>body_name := ''Eve'', body_committees := [7, 8]\<rparr>) example_db))
     = Applications example_db"
proof -
  let ?e = "example_env\<lparr>failing := [StatusInsertMany], inserted_before_failure := 1\<rparr>"
  let ?req = "(example_request None 0)\<lparr>body_name := ''Eve'', body_committees := [7, 8]\<rparr>"
  have f: "fails ?e StatusInsertMany" by (simp add: fails_def)
  have p: "postApplication ?e ?req example_db
     = (Next (CustomError ''Something went wrong creating statuses'' 500),
        example_db\<lparr>Statuses := Statuses example_db
           @ [\<lparr>s_id = 100, s_committee = 7, s_value = ''Pending''\<rparr>]\<rparr>)"
    by (simp add: postApplication_def newStatuses_def fails_def Let_def example_defs)
  from status_insert_failure[where e = ?e and req = ?req and db = example_db] f p
  show ?thesis by simp
qed

section \<open>A caller without committees\<close>

text \<open>
  Claim C6 asks for a 403 "not a member of any committee" when the caller's committees are
  empty. The handlers test \<open>!userCommitteeIds\<close>, which no array satisfies: the list endpoint
  never gives that answer. User 12, in no committee, gets 200 with an empty list from the
  list endpoint; the get-by-id endpoint refuses the user only through the ordinary check of
  the application's committees, and answers 404 for an application that does not exist.
\<close>

theorem empty_membership_not_refused:
  "getApplications e req db
     \<noteq> Some (Json 403 (Message ''The user is not member of any committee''))
   \<and> getUserCommitteeIdsByUserId example_env example_db 12 = Inr []
   \<and> getApplications example_env (example_request (Some 12) 0) example_db
     = Some (Json 200 (ListBody
         \<lparr>r_applications = [], r_pagination = Some \<lparr>currentPage = 1, numberOfPages = 0\<rparr>\<rparr>))
   \<and> getApplicationById example_env (example_request (Some 12) 2) example_db
     = Next (CustomError ''You do not have access to this application'' 403)
   \<and> getApplicationById example_env (example_request (Some 12) 5) example_db
     = Next (CustomError ''Could not find application'' 404)"
proof (intro conjI)
  show "getApplications e req db
     \<noteq> Some (Json 403 (Message ''The user is not member of any committee''))"
    by (auto simp: getApplications_def truthy_array_def split: sum.splits)
  show "getUserCommitteeIdsByUserId example_env example_db 12 = Inr []"
    by (simp add: getUserCommitteeIdsByUserId_def fails_def example_defs)
  show "getApplications example_env (example_request (Some 12) 0) example_db
     = Some (Json 200 (ListBody
         \<lparr>r_applications = [], r_pagination = Some \<lparr>currentPage = 1, numberOfPages = 0\<rparr>\<rparr>))"
    by code_simp
  show "getApplicationById example_env (example_request (Some 12) 2) example_db
     = Next (CustomError ''You do not have access to this application'' 403)"
    by code_simp
  show "getApplicationById example_env (example_request (Some 12) 5) example_db
     = Next (CustomError ''Could not find application'' 404)"
    by code_simp
qed

section \<open>The name filter\<close>

lemma matchHere_literal:
  assumes "\<forall>c \<in> set p. ordinary c"
  shows "matchHere p s = prefix (map lower p) (map lower s)"
  using assms
proof (induction p s rule: matchHere.induct)
  case (3 p ps c cs)
  then have "p \<noteq> CHR ''.''" by (auto simp: ordinary_def metacharacters_def)
  with 3 show ?case by simp
qed simp_all

lemma regexSearch_literal:
  assumes "\<forall>c \<in> set p. ordinary c"
  shows "regexSearch p s = sublist (map lower p) (map lower s)"
proof (induction s)
  case Nil
  then show ?case using matchHere_literal[OF assms, of "[]"] by simp
next
  case (Cons c cs)
  then show ?case using matchHere_literal[OF assms, of "c # cs"]
    by (simp add: sublist_Cons_right)
qed

lemma filter_option_total:
  assumes "\<forall>a \<in> set xs. P a = Some (f a)"
  shows "filter_option P xs = Some (filter f xs)"
  using assms by (induction xs) simp_all

text \<open>
  Without a name (absent or empty) the name stage is not applied. For a name made of
  ordinary characters only, on ASCII applicant names, the stage keeps exactly the
  applications whose name contains the supplied string, ignoring case: there the
  regular expression and the substring agree.
\<close>

lemma name_filter_literal:
  "(\<not> truthy_string name \<longrightarrow> nameStage name apps = Some apps)
   \<and> (name = Some p \<and> p \<noteq> [] \<and> (\<forall>c \<in> set p. ordinary c)
       \<and> (\<forall>a \<in> set apps. \<forall>c \<in> set (a_name a). ascii c) \<longrightarrow>
        nameStage name apps
          = Some (filter (\<lambda>a. sublist (map lower p) (map lower (a_name a))) apps))"
proof (intro conjI impI)
  assume "\<not> truthy_string name"
  then show "nameStage name apps = Some apps" by (simp add: nameStage_def)
next
  assume h: "name = Some p \<and> p \<noteq> [] \<and> (\<forall>c \<in> set p. ordinary c)
       \<and> (\<forall>a \<in> set apps. \<forall>c \<in> set (a_name a). ascii c)"
  then have i: "interpreted p" by (simp add: interpreted_def)
  with h have "\<forall>a \<in> set apps. regexTest p (a_name a)
      = Some (sublist (map lower p) (map lower (a_name a)))"
    by (simp add: regexTest_def regexSearch_literal)
  then have "filter_option (\<lambda>a. regexTest p (a_name a)) apps
      = Some (filter (\<lambda>a. sublist (map lower p) (map lower (a_name a))) apps)"
    by (rule filter_option_total)
  with h i show "nameStage name apps
          = Some (filter (\<lambda>a. sublist (map lower p) (map lower (a_name a))) apps)"
    by (simp add: nameStage_def truthy_string_def)
qed

lemma lower_examples:
  "map lower ''Bob'' = ''bob''" "map lower ''.'' = ''.''"
  by code_simp+

text \<open>
  Claim C9 asks for a substring match. The stage hands the supplied name to \<open>$regex\<close> as it
  is, so that a metacharacter in it is read as one. The name \<open>.\<close> keeps Bob, whose name
  contains no dot: the Election Committee member 13 who searches for \<open>.\<close> is answered with
  both applications. The name \<open>(\<close> is no regular expression at all: the same member is
  answered with the error 500 of a failed aggregation.
\<close>

theorem name_filter_unescaped:
  "nameStage (Some ''.'') [example_app1] = Some [example_app1]
   \<and> a_name example_app1 = ''Bob''
   \<and> \<not> sublist (map lower ''.'') (map lower ''Bob'')
   \<and> getApplications example_env ((example_request (Some 13) 0)\<lparr>q_name := Some ''.''\<rparr>) example_db
     = Some (Json 200 (ListBody
         \<lparr>r_applications =
            [\<lparr>a_id = 1, a_name = ''Bob'', submitted_date = 10,
              committees = [example_main_board], statuses = [\<lparr>se_committee = 8\<rparr>]\<rparr>,
             example_listed],
          r_pagination = Some \<lparr>currentPage = 0, numberOfPages = 1\<rparr>\<rparr>))
   \<and> getApplications example_env ((example_request (Some 13) 0)\<lparr>q_name := Some ''(''\<rparr>) example_db
     = Some (Next (CustomError ''Something went wrong retrieving applications'' 500))"
proof (intro conjI)
  have "regexTest ''.'' ''Bob'' = Some True"
    by (simp add: regexTest_def interpreted_def ascii_def)
  then show "nameStage (Some ''.'') [example_app1] = Some [example_app1]"
    by (simp add: nameStage_def truthy_string_def interpreted_def example_defs)
  show "a_name example_app1 = ''Bob''" by (simp add: example_defs)
  have "\<not> sublist ''.'' ''bob''" by (simp add: sublist_Cons_right)
  then show "\<not> sublist (map lower ''.'') (map lower ''Bob'')"
    using lower_examples by simp
  show "getApplications example_env ((example_request (Some 13) 0)\<lparr>q_name := Some ''.''\<rparr>) example_db
     = Some (Json 200 (ListBody
         \<lparr>r_applications =
            [\<lparr>a_id = 1, a_name = ''Bob'', submitted_date = 10,
              committees = [example_main_board], statuses = [\<lparr>se_committee = 8\<rparr>]\<rparr>,
             example_listed],
          r_pagination = Some \<lparr>currentPage = 0, numberOfPages = 1\<rparr>\<rparr>))"
    by code_simp
  show "getApplications example_env ((example_request (Some 13) 0)\<lparr>q_name := Some ''(''\<rparr>) example_db
     = Some (Next (CustomError ''Something went wrong retrieving applications'' 500))"
    by code_simp
qed

end
